theory Spec2Isabelle
  imports Complex_Main
begin

section \<open>JavaScript numbers\<close>

text \<open>
  A JavaScript number is an IEEE double: NaN, an infinity, or a finite value, which is
  the real number it denotes (the two zeros are one value here; nothing in the backend
  tells them apart but the sign of a printed zero). A decimal literal, in a JSON body or
  in a string read by \<^verbatim>\<open>parseFloat\<close> or \<^verbatim>\<open>parseInt\<close>, stands for the double nearest
  to it, a tie going to the even mantissa; \<open>to_double\<close> is that rounding, with 53 bits of
  mantissa, gradual underflow below \<open>2\<^sup>-\<^sup>1\<^sup>0\<^sup>2\<^sup>2\<close> and overflow to infinity from
  \<open>2\<^sup>1\<^sup>0\<^sup>2\<^sup>4\<close>.
\<close>

datatype jsnum = NaN | PosInf | NegInf | Fin real

fun negate :: "jsnum \<Rightarrow> jsnum" where
  "negate NaN = NaN"
| "negate PosInf = NegInf"
| "negate NegInf = PosInf"
| "negate (Fin x) = Fin (- x)"

text \<open>The number of binary digits of a positive integer.\<close>

function bitlen :: "int \<Rightarrow> int" where
  "bitlen n = (if n \<le> 0 then 0 else 1 + bitlen (n div 2))"
  by pat_completeness auto
termination
  by (relation "measure nat") auto

declare bitlen.simps [simp del]

text \<open>The binary exponent \<open>e\<close> of a positive real \<open>x\<close>: \<open>2\<^sup>e \<le> x < 2\<^sup>e\<^sup>+\<^sup>1\<close>.\<close>

definition bin_exponent :: "real \<Rightarrow> int" where
  "bin_exponent x = (if 1 \<le> x then bitlen \<lfloor>x\<rfloor> - 1 else - bitlen (\<lceil>1 / x\<rceil> - 1))"

definition round_half_even :: "real \<Rightarrow> int" where
  "round_half_even r =
     (let f = \<lfloor>r\<rfloor>; d = r - of_int f
      in if d < 1 / 2 then f else if 1 / 2 < d then f + 1 else if even f then f else f + 1)"

text \<open>The distance \<open>2\<^sup>e\<^sup>-\<^sup>5\<^sup>2\<close> between neighbouring doubles of binary exponent \<open>e\<close>.\<close>

definition quantum :: "int \<Rightarrow> real" where
  "quantum e = (if 52 \<le> e then 2 ^ nat (e - 52) else 1 / 2 ^ nat (52 - e))"

definition to_double_pos :: "real \<Rightarrow> jsnum" where
  "to_double_pos x =
     (let q = quantum (max (bin_exponent x) (- 1022));
          v = of_int (round_half_even (x / q)) * q
      in if 2 ^ 1024 \<le> v then PosInf else Fin v)"

definition to_double :: "real \<Rightarrow> jsnum" where
  "to_double x =
     (if x = 0 then Fin 0 else if 0 < x then to_double_pos x else negate (to_double_pos (- x)))"

text \<open>
  The head of the shortest decimal that reads back as a positive double \<open>v\<close>, which is
  how \<^verbatim>\<open>String(v)\<close> prints it: its first digit \<open>d\<close> and its decimal exponent \<open>n\<close>, the
  decimal being \<open>d.ddd \<times> 10\<^sup>n\<close>. They are those of \<open>v\<close> itself, unless the next
  one-digit decimal above \<open>v\<close> already reads back as \<open>v\<close>.
\<close>

function ndigits :: "int \<Rightarrow> int" where
  "ndigits n = (if n < 10 then 1 else 1 + ndigits (n div 10))"
  by pat_completeness auto
termination
  by (relation "measure nat") auto

declare ndigits.simps [simp del]

definition dec_exponent :: "real \<Rightarrow> int" where
  "dec_exponent v = (if 1 \<le> v then ndigits \<lfloor>v\<rfloor> - 1 else - ndigits (\<lceil>1 / v\<rceil> - 1))"

definition pow10 :: "int \<Rightarrow> real" where
  "pow10 n = (if 0 \<le> n then 10 ^ nat n else 1 / 10 ^ nat (- n))"

definition shortest_head :: "real \<Rightarrow> int \<times> int" where
  "shortest_head v =
     (let n = dec_exponent v; l = \<lfloor>v / pow10 n\<rfloor>
      in if to_double (of_int (l + 1) * pow10 n) = Fin v
         then (if l = 9 then (1, n + 1) else (l + 1, n))
         else (l, n))"

definition trunc :: "real \<Rightarrow> int" where
  "trunc x = (if x < 0 then - \<lfloor>- x\<rfloor> else \<lfloor>x\<rfloor>)"

text \<open>
  \<^verbatim>\<open>parseInt(x)\<close> on a number converts it to a string first. A finite number prints in
  plain decimal notation when the decimal exponent of its shortest decimal is from -6 to
  20, and \<^verbatim>\<open>parseInt\<close> reads its integer part, the number truncated towards zero;
  otherwise it prints in exponent notation, where \<^verbatim>\<open>parseInt\<close> reads the first digit
  only. The strings of NaN and of the infinities have no digit.
\<close>

fun parseInt_number :: "jsnum \<Rightarrow> jsnum" where
  "parseInt_number (Fin v) =
     (if v = 0 then Fin 0
      else let (d, n) = shortest_head \<bar>v\<bar>
           in if - 6 \<le> n \<and> n \<le> 20 then Fin (of_int (trunc v))
              else Fin (of_int ((if v < 0 then - 1 else 1) * d)))"
| "parseInt_number n = NaN"

text \<open>
  \<^verbatim>\<open>x.toFixed(2)\<close> is a string. For a finite \<open>x\<close> of magnitude below \<open>10\<^sup>2\<^sup>1\<close> it is the
  decimal with two fraction digits nearest to \<open>x\<close>, a tie going away from zero, and is
  represented by the number of hundredths it denotes. For a larger magnitude it is
  \<^verbatim>\<open>String(x)\<close>, the shortest decimal that reads back as \<open>x\<close>, represented by \<open>x\<close>.
\<close>

datatype fixed2 =
  NaN_text
| Infinity_text
| Minus_Infinity_text
| Hundredths int
| Shortest real

fun toFixed2 :: "jsnum \<Rightarrow> fixed2" where
  "toFixed2 NaN = NaN_text"
| "toFixed2 PosInf = Infinity_text"
| "toFixed2 NegInf = Minus_Infinity_text"
| "toFixed2 (Fin x) =
     (if 10 ^ 21 \<le> \<bar>x\<bar> then Shortest x
      else Hundredths (if x < 0 then - \<lfloor>- x * 100 + 1 / 2\<rfloor> else \<lfloor>x * 100 + 1 / 2\<rfloor>))"

section \<open>JavaScript values and built-ins used by the backend\<close>

text \<open>
  The backend (\<^verbatim>\<open>backend/src/index.ts\<close>) reads loosely typed JSON request bodies.
  A field of a request body that may be a string or a number is a \<open>jsval\<close>; a field that
  the interface declares as a string is a \<open>string option\<close>, \<open>None\<close> being a missing
  field. \<open>Num x\<close> is the number written by a JSON literal of value \<open>x\<close>, that is the
  double \<open>to_double x\<close>. Strings are ASCII.
\<close>

datatype jsval = Undefined | Str string | Num real

text \<open>Truthiness, as tested by \<^verbatim>\<open>!x\<close>, \<^verbatim>\<open>x && y\<close> and \<^verbatim>\<open>x || y\<close>.\<close>

fun truthy :: "jsval \<Rightarrow> bool" where
  "truthy Undefined = False"
| "truthy (Str s) = (s \<noteq> [])"
| "truthy (Num x) = (to_double x \<noteq> Fin 0)"

fun truthy_str :: "string option \<Rightarrow> bool" where
  "truthy_str None = False"
| "truthy_str (Some s) = (s \<noteq> [])"

definition lower_letters :: string where
  "lower_letters = ''abcdefghijklmnopqrstuvwxyz''"

definition upper_letters :: string where
  "upper_letters = ''ABCDEFGHIJKLMNOPQRSTUVWXYZ''"

definition upper_char :: "char \<Rightarrow> char" where
  "upper_char c = (case map_of (zip lower_letters upper_letters) c of None \<Rightarrow> c | Some d \<Rightarrow> d)"

definition lower_char :: "char \<Rightarrow> char" where
  "lower_char c = (case map_of (zip upper_letters lower_letters) c of None \<Rightarrow> c | Some d \<Rightarrow> d)"

definition toUpperCase :: "string \<Rightarrow> string" where
  "toUpperCase s = map upper_char s"

definition toLowerCase :: "string \<Rightarrow> string" where
  "toLowerCase s = map lower_char s"

fun startsWith :: "string \<Rightarrow> string \<Rightarrow> bool" where
  "startsWith s [] = True"
| "startsWith [] (p # ps) = False"
| "startsWith (c # cs) (p # ps) = (c = p \<and> startsWith cs ps)"

text \<open>\<^verbatim>\<open>s.includes(sub)\<close>: \<open>sub\<close> occurs in \<open>s\<close> as a contiguous substring.\<close>

fun str_includes :: "string \<Rightarrow> string \<Rightarrow> bool" where
  "str_includes [] sub = (sub = [])"
| "str_includes (c # cs) sub = (startsWith (c # cs) sub \<or> str_includes cs sub)"

subsection \<open>parseInt and parseFloat\<close>

definition is_ws :: "char \<Rightarrow> bool" where
  "is_ws c = (c \<in> set [CHR '' '', CHR 0x09, CHR 0x0A, CHR 0x0B, CHR 0x0C, CHR 0x0D])"

definition digit_val :: "char \<Rightarrow> int option" where
  "digit_val c = map_of (zip ''0123456789'' [0, 1, 2, 3, 4, 5, 6, 7, 8, 9]) c"

definition hex_val :: "char \<Rightarrow> int option" where
  "hex_val c =
     map_of (zip ''0123456789abcdefABCDEF''
       [0, 1, 2, 3, 4, 5, 6, 7, 8, 9, 10, 11, 12, 13, 14, 15, 10, 11, 12, 13, 14, 15]) c"

definition is_digit :: "char \<Rightarrow> bool" where
  "is_digit c = (digit_val c \<noteq> None)"

definition is_hex :: "char \<Rightarrow> bool" where
  "is_hex c = (hex_val c \<noteq> None)"

text \<open>The integer written by a string of digits in the given base.\<close>

definition digits_val :: "int \<Rightarrow> (char \<Rightarrow> int option) \<Rightarrow> string \<Rightarrow> int" where
  "digits_val b dv ds = foldl (\<lambda>a c. b * a + (case dv c of None \<Rightarrow> 0 | Some d \<Rightarrow> d)) 0 ds"

text \<open>An optional sign: the factor it stands for and the rest of the string.\<close>

fun take_sign :: "string \<Rightarrow> int \<times> string" where
  "take_sign (c # cs) =
     (if c = CHR ''-'' then (-1, cs) else if c = CHR ''+'' then (1, cs) else (1, c # cs))"
| "take_sign [] = (1, [])"

text \<open>
  \<^verbatim>\<open>parseInt(s)\<close> with no radix: leading white space, a sign, then the longest prefix
  of decimal digits (of hexadecimal digits after \<^verbatim>\<open>0x\<close>); NaN when there is no digit.
  The result is a number, the double nearest to the integer read.
\<close>

definition parseInt_str :: "string \<Rightarrow> jsnum" where
  "parseInt_str s =
     (let (sg, t) = take_sign (dropWhile is_ws s) in
      if startsWith t ''0x'' \<or> startsWith t ''0X'' then
        (let ds = takeWhile is_hex (drop 2 t) in
         if ds = [] then NaN else to_double (of_int (sg * digits_val 16 hex_val ds)))
      else
        (let ds = takeWhile is_digit t in
         if ds = [] then NaN else to_double (of_int (sg * digits_val 10 digit_val ds))))"

text \<open>
  The exponent part of a decimal literal: \<^verbatim>\<open>e\<close> or \<^verbatim>\<open>E\<close>, a sign and at least one
  digit; anything else is not part of the number.
\<close>

definition exponent_of :: "string \<Rightarrow> int" where
  "exponent_of r =
     (if startsWith r ''e'' \<or> startsWith r ''E'' then
        (let (sg, t) = take_sign (tl r); ds = takeWhile is_digit t in
         if ds = [] then 0 else sg * digits_val 10 digit_val ds)
      else 0)"

text \<open>
  \<^verbatim>\<open>parseFloat(s)\<close>: leading white space, a sign, then either the word
  \<^verbatim>\<open>Infinity\<close> or digits, a fraction and an exponent; NaN when neither the integer part
  nor the fraction has a digit. The result is the double nearest to the decimal read.
\<close>

definition parseFloat_str :: "string \<Rightarrow> jsnum" where
  "parseFloat_str s =
     (let (sg, t) = take_sign (dropWhile is_ws s) in
      if startsWith t ''Infinity'' then (if sg < 0 then NegInf else PosInf)
      else
        (let ip = takeWhile is_digit t;
             r = dropWhile is_digit t;
             fp = (if startsWith r ''.'' then takeWhile is_digit (tl r) else []);
             r' = (if startsWith r ''.'' then dropWhile is_digit (tl r) else r)
         in if ip = [] \<and> fp = [] then NaN
            else to_double (of_int sg
                   * (of_int (digits_val 10 digit_val ip)
                      + of_int (digits_val 10 digit_val fp) / 10 ^ length fp)
                   * pow10 (exponent_of r'))))"

text \<open>\<^verbatim>\<open>parseInt(undefined)\<close> and \<^verbatim>\<open>parseFloat(undefined)\<close> are NaN.\<close>

fun parseInt :: "jsval \<Rightarrow> jsnum" where
  "parseInt Undefined = NaN"
| "parseInt (Str s) = parseInt_str s"
| "parseInt (Num x) = parseInt_number (to_double x)"

fun parseFloat :: "jsval \<Rightarrow> jsnum" where
  "parseFloat Undefined = NaN"
| "parseFloat (Str s) = parseFloat_str s"
| "parseFloat (Num x) = to_double x"

section \<open>Trading mode\<close>

text \<open>
  \<^verbatim>\<open>let tradingMode: "paper" | "live" = "paper";\<close> is the only state of the process.
\<close>

type_synonym trading_mode = string

definition initial_tradingMode :: trading_mode where
  "initial_tradingMode = ''paper''"

datatype mode_response =
  ModeError nat string
| ModeOk trading_mode string

text \<open>A string in single quotes, as in the messages of the backend.\<close>

definition quoted :: "string \<Rightarrow> string" where
  "quoted s = [CHR 0x27] @ s @ [CHR 0x27]"

definition mode_error_text :: string where
  "mode_error_text = ''Mode must be '' @ quoted ''paper'' @ '' or '' @ quoted ''live''"

text \<open>
  The handler of \<^verbatim>\<open>POST /api/trading-mode\<close>: the response and the new state. The
  requested mode is any JSON value; \<^verbatim>\<open>!==\<close> compares without conversion, so only the
  two strings pass the guard.
\<close>

definition set_trading_mode :: "trading_mode \<Rightarrow> jsval \<Rightarrow> mode_response \<times> trading_mode" where
  "set_trading_mode tradingMode mode =
     (if mode \<noteq> Str ''paper'' \<and> mode \<noteq> Str ''live'' then
        (ModeError 400 mode_error_text, tradingMode)
      else
        (case mode of
           Str m \<Rightarrow> (ModeOk m (''Switched to '' @ m @ '' trading''), m)
         | _ \<Rightarrow> (ModeError 400 mode_error_text, tradingMode)))"

section \<open>Data of the options order placement\<close>

text \<open>
  The handler of \<^verbatim>\<open>POST /api/options/orders\<close>. Its request body has the fields of
  \<open>order_request\<close>: symbol and side are strings, quantity and price are strings or
  numbers, orderType is a string with a default.
\<close>

record order_request =
  symbol :: "string option"
  side :: "string option"
  quantity :: jsval
  price :: jsval
  orderType :: "string option"

text \<open>A position as the brokerage returns it from \<^verbatim>\<open>getPositions()\<close>.\<close>

record position =
  pos_symbol :: string
  pos_qty :: jsval
  pos_side :: string

text \<open>
  The order body \<^verbatim>\<open>orderData\<close> sent to the brokerage. \<open>od_limit_price\<close> and
  \<open>od_order_class\<close> are \<open>None\<close> when the field is absent.
\<close>

record orderData =
  od_symbol :: string
  od_qty :: jsnum
  od_side :: string
  od_type :: string
  od_time_in_force :: string
  od_limit_price :: "fixed2 option"
  od_order_class :: "string option"

text \<open>
  A JSON object of the brokerage (an order, an error payload) is a map from field names
  to values, which are strings. The body of an HTTP reply either parses to such an
  object, as the replies of the brokerage do, or is text that \<^verbatim>\<open>JSON.parse\<close> rejects.
  \<^verbatim>\<open>fetch\<close> throws on a network failure and otherwise returns a status and a body;
  \<^verbatim>\<open>response.ok\<close> is true for the statuses 200 to 299.
\<close>

type_synonym jobj = "string \<rightharpoonup> string"

datatype payload = NotJson string | Json jobj

datatype fetch_reply = NetworkError string | Reply nat payload

definition response_ok :: "nat \<Rightarrow> bool" where
  "response_ok status = (200 \<le> status \<and> status \<le> 299)"

text \<open>
  What the brokerage answers at each place where the handler calls it: the position
  query (\<open>None\<close> when it throws), the SDK's \<^verbatim>\<open>createOrder\<close> (\<open>Inl\<close> the message of
  the rejection that it throws), the direct POST, and the POST of each of the two retry
  branches. The account query at the start of the handler is only logged, so its answer
  is not part of the record.
\<close>

record broker =
  positions_reply :: "position list option"
  sdk_reply :: "string + jobj"
  direct_reply :: fetch_reply
  retry_reply :: fetch_reply
  alt_reply :: fetch_reply

text \<open>The remote calls and the delays of one run of the handler, in order.\<close>

datatype event =
  GetAccount
| GetPositions
| CreateOrder orderData
| Post string orderData
| Delay nat

fun submitted :: "event \<Rightarrow> orderData option" where
  "submitted (CreateOrder od) = Some od"
| "submitted (Post url od) = Some od"
| "submitted e = None"

subsection \<open>Responses\<close>

record order_view =
  ov_id :: "string option"
  ov_symbol :: "string option"
  ov_side :: "string option"
  ov_qty :: "string option"
  ov_type :: "string option"
  ov_status :: "string option"
  ov_limit_price :: "string option"
  ov_filled_qty :: "string option"
  ov_created_at :: "string option"

definition order_view_of :: "jobj \<Rightarrow> order_view" where
  "order_view_of order =
     \<lparr>ov_id = order ''id'', ov_symbol = order ''symbol'', ov_side = order ''side'',
      ov_qty = order ''qty'', ov_type = order ''type'', ov_status = order ''status'',
      ov_limit_price = order ''limit_price'', ov_filled_qty = order ''filled_qty'',
      ov_created_at = order ''created_at''\<rparr>"

record position_info =
  pi_qty :: jsval
  pi_side :: string

text \<open>
  \<^verbatim>\<open>existingPosition ? {qty: ..., side: ...} : null\<close>
\<close>

definition position_info_of :: "position option \<Rightarrow> position_info option" where
  "position_info_of existingPosition =
     (case existingPosition of
        Some pos \<Rightarrow> Some \<lparr>pi_qty = pos_qty pos, pi_side = pos_side pos\<rparr>
      | None \<Rightarrow> None)"

text \<open>
  A success body. \<open>sb_position_info\<close> is \<open>None\<close> when the body has no
  \<^verbatim>\<open>position_info\<close> field, \<open>Some None\<close> when the field is \<^verbatim>\<open>null\<close>.
\<close>

record success_body =
  sb_order :: order_view
  sb_message :: string
  sb_method :: string
  sb_smart_side :: string
  sb_original_side :: string
  sb_position_info :: "position_info option option"

record debug_info =
  di_order_data :: orderData
  di_api_url :: string
  di_trading_mode :: trading_mode
  di_original_side :: string
  di_smart_side :: string
  di_existing_position :: "position_info option"

record rejection_body =
  rb_error :: string
  rb_details :: jobj
  rb_debug_info :: debug_info
  rb_suggestions :: "string list"

record failure_body =
  fb_error :: string
  fb_details :: string
  fb_paper_trading :: string

datatype response =
  BadRequest nat string
| Accepted success_body
| Rejected nat rejection_body
| InvalidResponse nat string string
| Failed nat failure_body

section \<open>The handler of the options order placement\<close>

subsection \<open>Validation\<close>

text \<open>
  \<^verbatim>\<open>if (!symbol || !side || !quantity || !price)\<close>
\<close>

definition missing_fields :: "order_request \<Rightarrow> bool" where
  "missing_fields req =
     (\<not> truthy_str (symbol req) \<or> \<not> truthy_str (side req)
      \<or> \<not> truthy (quantity req) \<or> \<not> truthy (price req))"

definition missing_fields_text :: string where
  "missing_fields_text = ''Missing required fields: symbol, side, quantity, price''"

text \<open>The string of a field that validation has found present.\<close>

fun str_of :: "string option \<Rightarrow> string" where
  "str_of (Some s) = s"
| "str_of None = []"

subsection \<open>Position lookup and smart side\<close>

text \<open>Comparisons of a number with zero: every comparison with NaN is false.\<close>

fun gt0 :: "jsnum \<Rightarrow> bool" where
  "gt0 (Fin x) = (x > 0)"
| "gt0 PosInf = True"
| "gt0 n = False"

fun lt0 :: "jsnum \<Rightarrow> bool" where
  "lt0 (Fin x) = (x < 0)"
| "lt0 NegInf = True"
| "lt0 n = False"

fun le0 :: "jsnum \<Rightarrow> bool" where
  "le0 (Fin x) = (x \<le> 0)"
| "le0 NegInf = True"
| "le0 n = False"

fun ge0 :: "jsnum \<Rightarrow> bool" where
  "ge0 (Fin x) = (x \<ge> 0)"
| "ge0 PosInf = True"
| "ge0 n = False"

text \<open>
  \<^verbatim>\<open>positions.find((pos) => pos.symbol === symbol.toUpperCase())\<close>
\<close>

definition find_position :: "position list \<Rightarrow> string \<Rightarrow> position option" where
  "find_position positions symb = List.find (\<lambda>pos. pos_symbol pos = toUpperCase symb) positions"

text \<open>
  The smart order routing on the result of the search: the body of the \<^verbatim>\<open>try\<close> block
  after \<^verbatim>\<open>find\<close>. \<^verbatim>\<open>smartSide\<close> starts as \<^verbatim>\<open>side\<close> and stays so when no branch assigns it.
\<close>

definition resolveSmartSide :: "string \<Rightarrow> position option \<Rightarrow> string" where
  "resolveSmartSide sd existingPosition =
     (case existingPosition of
        Some pos \<Rightarrow>
          (if toLowerCase sd = ''sell'' \<and> gt0 (parseFloat (pos_qty pos)) then ''sell_to_close''
           else if toLowerCase sd = ''buy'' \<and> lt0 (parseFloat (pos_qty pos)) then ''buy_to_close''
           else if toLowerCase sd = ''sell'' \<and> le0 (parseFloat (pos_qty pos)) then ''sell_to_open''
           else if toLowerCase sd = ''buy'' \<and> ge0 (parseFloat (pos_qty pos)) then ''buy_to_open''
           else sd)
      | None \<Rightarrow>
          (if toLowerCase sd = ''buy'' then ''buy_to_open''
           else if toLowerCase sd = ''sell'' then ''sell_to_open''
           else sd))"

text \<open>
  The \<^verbatim>\<open>try\<close>/\<^verbatim>\<open>catch\<close> around the lookup: when \<^verbatim>\<open>getPositions()\<close> throws, the catch
  block only logs, so \<^verbatim>\<open>existingPosition\<close> stays \<^verbatim>\<open>null\<close> and \<^verbatim>\<open>smartSide\<close> stays
  \<^verbatim>\<open>side\<close>. The result is the pair of the two variables.
\<close>

definition position_check :: "broker \<Rightarrow> string \<Rightarrow> string \<Rightarrow> position option \<times> string" where
  "position_check env symb sd =
     (case positions_reply env of
        Some positions \<Rightarrow>
          (let existingPosition = find_position positions symb
           in (existingPosition, resolveSmartSide sd existingPosition))
      | None \<Rightarrow> (None, sd))"

subsection \<open>The order body\<close>

definition wire_side :: "string \<Rightarrow> string" where
  "wire_side smartSide =
     (if smartSide = ''buy_to_open'' \<or> smartSide = ''buy_to_close'' then ''buy'' else ''sell'')"

definition build_orderData :: "string \<Rightarrow> jsval \<Rightarrow> jsval \<Rightarrow> string \<Rightarrow> string \<Rightarrow> orderData" where
  "build_orderData symb qty prc ordType smartSide =
     \<lparr>od_symbol = toUpperCase symb,
      od_qty = parseInt qty,
      od_side = wire_side smartSide,
      od_type = ordType,
      od_time_in_force = ''day'',
      od_limit_price = (if ordType = ''limit'' then Some (toFixed2 (parseFloat prc)) else None),
      od_order_class = None\<rparr>"

subsection \<open>Success and rejection bodies\<close>

definition success :: "jobj \<Rightarrow> string \<Rightarrow> string \<Rightarrow> string \<Rightarrow> string
    \<Rightarrow> position_info option option \<Rightarrow> response" where
  "success order msg meth smartSide sd pinfo =
     Accepted \<lparr>sb_order = order_view_of order, sb_message = msg, sb_method = meth,
               sb_smart_side = smartSide, sb_original_side = sd, sb_position_info = pinfo\<rparr>"

definition suggestions :: "string list" where
  "suggestions =
     [''Use a margin account to allow simultaneous long/short positions'',
      ''Close existing positions before placing opposing orders'',
      ''Use '' @ quoted ''sell_to_close'' @ '' instead of '' @ quoted ''sell_to_open''
        @ '' if you have long positions'',
      ''Use '' @ quoted ''buy_to_close'' @ '' instead of '' @ quoted ''buy_to_open''
        @ '' if you have short positions'']"

definition apiUrl_of :: "trading_mode \<Rightarrow> string" where
  "apiUrl_of tradingMode =
     (if tradingMode = ''paper'' then ''https://paper-api.alpaca.markets''
      else ''https://api.alpaca.markets'')"

definition orders_url :: "trading_mode \<Rightarrow> string" where
  "orders_url tradingMode = apiUrl_of tradingMode @ ''/v2/orders''"

definition rejection :: "trading_mode \<Rightarrow> nat \<Rightarrow> string \<Rightarrow> jobj \<Rightarrow> orderData \<Rightarrow> string
    \<Rightarrow> string \<Rightarrow> position option \<Rightarrow> response" where
  "rejection tradingMode status enhancedErrorMessage errorData od sd smartSide existingPosition =
     Rejected status
       \<lparr>rb_error = enhancedErrorMessage,
        rb_details = errorData,
        rb_debug_info =
          \<lparr>di_order_data = od, di_api_url = apiUrl_of tradingMode,
           di_trading_mode = tradingMode, di_original_side = sd, di_smart_side = smartSide,
           di_existing_position = position_info_of existingPosition\<rparr>,
        rb_suggestions = suggestions\<rparr>"

text \<open>
  \<^verbatim>\<open>try { errorData = JSON.parse(responseText) } catch { errorData = {message: responseText} }\<close>
\<close>

definition errorData_of :: "payload \<Rightarrow> jobj" where
  "errorData_of body =
     (case body of Json obj \<Rightarrow> obj | NotJson responseText \<Rightarrow> [''message'' \<mapsto> responseText])"

text \<open>
  \<^verbatim>\<open>a || d\<close> with a string \<open>d\<close>, and \<^verbatim>\<open>m && m.includes(sub)\<close>, on an optional string; the
  text of a value inside a template string.
\<close>

fun or_default :: "string option \<Rightarrow> string \<Rightarrow> string" where
  "or_default (Some s) d = (if s \<noteq> [] then s else d)"
| "or_default None d = d"

fun msg_includes :: "string option \<Rightarrow> string \<Rightarrow> bool" where
  "msg_includes (Some m) sub = (m \<noteq> [] \<and> str_includes m sub)"
| "msg_includes None sub = False"

fun template :: "string option \<Rightarrow> string" where
  "template (Some s) = s"
| "template None = ''undefined''"

definition short_sell_text :: string where
  "short_sell_text = ''cannot open a short sell while a long buy order is open''"

definition wash_trade_text :: string where
  "wash_trade_text = ''potential wash trade detected''"

text \<open>The three enhanced error messages, template strings around the broker's message.\<close>

definition broker_restriction_text :: "string option \<Rightarrow> string" where
  "broker_restriction_text message =
     ''Broker restriction: '' @ template message
       @ ''. This occurs because you have existing long positions and are trying to create a short position. Consider using a margin account or closing existing positions first.''"

definition wash_trade_error_text :: "string option \<Rightarrow> string" where
  "wash_trade_error_text message =
     ''Wash trade detection triggered: '' @ template message
       @ ''. For day trading, this should not apply. Trying alternative approach...''"

definition position_restriction_text :: "string option \<Rightarrow> string" where
  "position_restriction_text message =
     ''Position restriction: '' @ template message
       @ ''. For day trading with margin, this should not apply. Trying alternative approach...''"

subsection \<open>A rejected direct submission\<close>

text \<open>
  The branch \<^verbatim>\<open>if (!response.ok)\<close> of the direct submission: an \<^verbatim>\<open>if\<close>/\<^verbatim>\<open>else if\<close>
  chain on the broker's message, in the order of the source. The result is the response
  and the events of the branch. A retry whose reply is not ok, whose body does not parse
  (\<^verbatim>\<open>retryResponse.json()\<close> throws) or that fails on the network (\<^verbatim>\<open>fetch\<close> throws) is
  caught and falls through to the rejection response.
\<close>

definition handle_rejected :: "trading_mode \<Rightarrow> broker \<Rightarrow> string \<Rightarrow> string \<Rightarrow> position option
    \<Rightarrow> orderData \<Rightarrow> nat \<Rightarrow> jobj \<Rightarrow> response \<times> event list" where
  "handle_rejected tradingMode env sd smartSide existingPosition od status errorData =
     (let message = errorData ''message'';
          reject = (\<lambda>enhancedErrorMessage.
            rejection tradingMode status enhancedErrorMessage errorData od sd smartSide
              existingPosition)
      in
      if msg_includes message short_sell_text then
        (reject (broker_restriction_text message), [])
      else if msg_includes message wash_trade_text then
        (let enhancedErrorMessage = wash_trade_error_text message;
             retryOrderData = od\<lparr>od_time_in_force := ''day''\<rparr>;
             evs = [Delay 100, Post (orders_url tradingMode) retryOrderData]
         in case retry_reply env of
              Reply retryStatus (Json retryOrder) \<Rightarrow>
                (if response_ok retryStatus then
                   (success retryOrder
                      ''Options order placed successfully (retry after wash trade detection)''
                      ''retry_after_wash_trade'' smartSide sd None, evs)
                 else (reject enhancedErrorMessage, evs))
            | _ \<Rightarrow> (reject enhancedErrorMessage, evs))
      else if msg_includes message short_sell_text then
        (let enhancedErrorMessage = position_restriction_text message;
             alternativeOrderData = od\<lparr>od_order_class := Some ''simple''\<rparr>;
             evs = [Delay 200, Post (orders_url tradingMode) alternativeOrderData]
         in case alt_reply env of
              Reply altStatus (Json altOrder) \<Rightarrow>
                (if response_ok altStatus then
                   (success altOrder
                      ''Options order placed successfully (alternative approach for margin)''
                      ''alternative_margin_approach'' smartSide sd None, evs)
                 else (reject enhancedErrorMessage, evs))
            | _ \<Rightarrow> (reject enhancedErrorMessage, evs))
      else
        (reject (or_default message (or_default (errorData ''error'') ''Options order failed'')),
         []))"

subsection \<open>The outer catch block\<close>

text \<open>
  The only exception that reaches the outer \<^verbatim>\<open>catch\<close> in this model is the network
  failure of the direct \<^verbatim>\<open>fetch\<close>; such an error has no \<^verbatim>\<open>response\<close> property, so the
  status stays 500 and the message stays the default one.
\<close>

definition handle_error :: "trading_mode \<Rightarrow> string \<Rightarrow> response" where
  "handle_error tradingMode errorText =
     (let errorMessage = ''Failed to place options order'';
          errorMessage' =
            (if str_includes (toLowerCase errorMessage) ''not authorized''
                \<or> str_includes (toLowerCase errorMessage) ''authorization''
             then errorMessage
               @ ''. Please ensure: 1) Options trading is enabled in your Alpaca account, 2) You have the required options trading level, 3) Your API keys have options trading permissions.''
             else errorMessage)
      in Failed 500
           \<lparr>fb_error = errorMessage', fb_details = errorText,
            fb_paper_trading =
              (if tradingMode = ''paper'' then ''Using paper trading mode''
               else ''Using live trading mode'')\<rparr>)"

subsection \<open>The handler\<close>

text \<open>
  Method 2 of the source, entered from the \<^verbatim>\<open>catch (sdkError)\<close> block: the same order
  body posted to the REST endpoint of the current trading mode.
\<close>

definition direct_api :: "trading_mode \<Rightarrow> broker \<Rightarrow> string \<Rightarrow> string \<Rightarrow> position option
    \<Rightarrow> orderData \<Rightarrow> response \<times> event list" where
  "direct_api tradingMode env sd smartSide existingPosition od =
     (let post = Post (orders_url tradingMode) od in
      case direct_reply env of
        NetworkError errorText \<Rightarrow> (handle_error tradingMode errorText, [post])
      | Reply status body \<Rightarrow>
          (if \<not> response_ok status then
             (let (res, evs) =
                    handle_rejected tradingMode env sd smartSide existingPosition od status
                      (errorData_of body)
              in (res, post # evs))
           else
             (case body of
                NotJson responseText \<Rightarrow>
                  (InvalidResponse 500 ''Invalid response from Alpaca API'' responseText, [post])
              | Json order \<Rightarrow>
                  (success order ''Options order placed successfully via direct API''
                     ''direct_api'' smartSide sd (Some (position_info_of existingPosition)),
                   [post]))))"

text \<open>
  The whole handler: the response sent to the caller and the remote calls made, given
  the trading mode of the process, the answers of the brokerage and the request body.
\<close>

definition placeOptionsOrder :: "trading_mode \<Rightarrow> broker \<Rightarrow> order_request
    \<Rightarrow> response \<times> event list" where
  "placeOptionsOrder tradingMode env req =
     (if missing_fields req then (BadRequest 400 missing_fields_text, [])
      else
        (let symb = str_of (symbol req);
             sd = str_of (side req);
             ordType = (case orderType req of None \<Rightarrow> ''limit'' | Some t \<Rightarrow> t);
             (existingPosition, smartSide) = position_check env symb sd;
             od = build_orderData symb (quantity req) (price req) ordType smartSide;
             evs = [GetAccount, GetPositions, CreateOrder od]
         in case sdk_reply env of
              Inr order \<Rightarrow>
                (success order ''Options order placed successfully via SDK'' ''alpaca_sdk''
                   smartSide sd (Some (position_info_of existingPosition)),
                 evs)
            | Inl sdkError \<Rightarrow>
                (let (res, evs') = direct_api tradingMode env sd smartSide existingPosition od
                 in (res, evs @ evs'))))"

text \<open>The submissions of a run, and the order bodies they carry.\<close>

definition submissions :: "event list \<Rightarrow> orderData list" where
  "submissions evs = List.map_filter submitted evs"

section \<open>The process: requests against the trading mode\<close>

datatype request =
  GetTradingMode
| SetTradingMode jsval
| PlaceOptionsOrder broker order_request

text \<open>One request changes the trading mode only through the mode-setting handler.\<close>

fun serve :: "trading_mode \<Rightarrow> request \<Rightarrow> trading_mode" where
  "serve tradingMode GetTradingMode = tradingMode"
| "serve tradingMode (SetTradingMode mode) = snd (set_trading_mode tradingMode mode)"
| "serve tradingMode (PlaceOptionsOrder env req) = tradingMode"

definition run :: "request list \<Rightarrow> trading_mode" where
  "run reqs = foldl serve initial_tradingMode reqs"

section \<open>Sample requests and broker answers\<close>

text \<open>
  The request of the repository's test script: a limit buy of one contract, quantity and
  price sent as strings.
\<close>

definition buy_request :: order_request where
  "buy_request =
     \<lparr>symbol = Some ''MSTR250725P00150000'', side = Some ''buy'', quantity = Str ''1'',
      price = Str ''1.44'', orderType = Some ''limit''\<rparr>"

definition no_price_request :: order_request where
  "no_price_request = buy_request\<lparr>price := Undefined\<rparr>"

definition negative_request :: order_request where
  "negative_request = buy_request\<lparr>quantity := Num (- 5), price := Num (- 1)\<rparr>"

definition number_request :: order_request where
  "number_request = buy_request\<lparr>quantity := Num 2, price := Num 1.44\<rparr>"

definition small_request :: order_request where
  "small_request = buy_request\<lparr>quantity := Str ''0.5'', price := Str ''0.001''\<rparr>"

definition huge_request :: order_request where
  "huge_request = buy_request\<lparr>quantity := Num (10 ^ 999)\<rparr>"

definition long_position :: position where
  "long_position = \<lparr>pos_symbol = ''MSTR250725P00150000'', pos_qty = Str ''1'', pos_side = ''long''\<rparr>"

definition short_position :: position where
  "short_position = \<lparr>pos_symbol = ''MSTR250725P00150000'', pos_qty = Str ''-2'', pos_side = ''short''\<rparr>"

definition sample_order :: jobj where
  "sample_order = [''id'' \<mapsto> ''order-1'', ''status'' \<mapsto> ''accepted'']"

text \<open>The order body built for \<open>buy_request\<close> when the caller is flat.\<close>

definition buy_orderData :: orderData where
  "buy_orderData =
     \<lparr>od_symbol = ''MSTR250725P00150000'', od_qty = Fin 1, od_side = ''buy'',
      od_type = ''limit'', od_time_in_force = ''day'',
      od_limit_price = Some (Hundredths 144), od_order_class = None\<rparr>"

text \<open>Rejection messages of the brokerage.\<close>

definition wash_message :: string where
  "wash_message = ''potential wash trade detected. use complex orders''"

definition short_sell_message :: string where
  "short_sell_message = ''cannot open a short sell while a long buy order is open''"

definition both_message :: string where
  "both_message =
     ''potential wash trade detected; cannot open a short sell while a long buy order is open''"

definition fatal_message :: string where
  "fatal_message = ''not authorized''"

text \<open>A broker that accepts the SDK submission; the caller is flat.\<close>

definition accepting_broker :: broker where
  "accepting_broker =
     \<lparr>positions_reply = Some [], sdk_reply = Inr sample_order,
      direct_reply = NetworkError ''unused'', retry_reply = NetworkError ''unused'',
      alt_reply = NetworkError ''unused''\<rparr>"

text \<open>The position query throws; the SDK submission is accepted.\<close>

definition lookup_fails_broker :: broker where
  "lookup_fails_broker = accepting_broker\<lparr>positions_reply := None\<rparr>"

text \<open>
  The SDK submission and the direct one are rejected for a wash trade, the retry is
  accepted.
\<close>

definition wash_broker :: broker where
  "wash_broker =
     \<lparr>positions_reply = Some [], sdk_reply = Inl wash_message,
      direct_reply = Reply 403 (Json [''message'' \<mapsto> wash_message]),
      retry_reply = Reply 200 (Json sample_order),
      alt_reply = NetworkError ''unused''\<rparr>"

text \<open>
  The SDK submission and the direct one are rejected for the long/short conflict; a
  resubmission with the order class would be accepted.
\<close>

definition short_sell_broker :: broker where
  "short_sell_broker =
     \<lparr>positions_reply = Some [], sdk_reply = Inl short_sell_message,
      direct_reply = Reply 403 (Json [''message'' \<mapsto> short_sell_message]),
      retry_reply = Reply 200 (Json sample_order),
      alt_reply = Reply 200 (Json sample_order)\<rparr>"

text \<open>The direct submission is rejected with a message that names both conditions.\<close>

definition both_messages_broker :: broker where
  "both_messages_broker =
     wash_broker\<lparr>direct_reply := Reply 403 (Json [''message'' \<mapsto> both_message])\<rparr>"

text \<open>The SDK submission is rejected for a wash trade; the direct one is accepted.\<close>

definition sdk_wash_broker :: broker where
  "sdk_wash_broker = wash_broker\<lparr>direct_reply := Reply 200 (Json sample_order)\<rparr>"

text \<open>The SDK submission is rejected with a fatal message; the direct one is accepted.\<close>

definition sdk_fatal_broker :: broker where
  "sdk_fatal_broker =
     wash_broker\<lparr>sdk_reply := Inl fatal_message,
       direct_reply := Reply 200 (Json sample_order)\<rparr>"

text \<open>Both the SDK submission and the direct one are rejected with a fatal message.\<close>

definition fatal_broker :: broker where
  "fatal_broker =
     wash_broker\<lparr>sdk_reply := Inl fatal_message,
       direct_reply := Reply 403 (Json [''message'' \<mapsto> fatal_message])\<rparr>"

section \<open>Evaluation and structure lemmas\<close>

lemmas dbl_eval = to_double_def to_double_pos_def quantum_def round_half_even_def
  bin_exponent_def bitlen.simps shortest_head_def dec_exponent_def ndigits.simps pow10_def
  trunc_def

lemmas js_eval = toUpperCase_def toLowerCase_def upper_char_def lower_char_def
  lower_letters_def upper_letters_def parseInt_str_def parseFloat_str_def exponent_of_def
  is_ws_def is_digit_def is_hex_def digit_val_def hex_val_def digits_val_def dbl_eval

lemmas place_eval = placeOptionsOrder_def direct_api_def handle_rejected_def missing_fields_def
  position_check_def find_position_def resolveSmartSide_def build_orderData_def wire_side_def
  errorData_of_def response_ok_def success_def rejection_def orders_url_def apiUrl_of_def
  short_sell_text_def wash_trade_text_def position_info_of_def order_view_of_def Let_def

lemmas sample_defs = buy_request_def no_price_request_def negative_request_def
  number_request_def small_request_def huge_request_def long_position_def short_position_def sample_order_def
  accepting_broker_def lookup_fails_broker_def wash_broker_def short_sell_broker_def
  both_messages_broker_def sdk_wash_broker_def sdk_fatal_broker_def fatal_broker_def
  buy_orderData_def wash_message_def short_sell_message_def both_message_def
  fatal_message_def

lemma submissions_simps:
  "submissions [] = []"
  "submissions (GetAccount # evs) = submissions evs"
  "submissions (GetPositions # evs) = submissions evs"
  "submissions (Delay n # evs) = submissions evs"
  "submissions (CreateOrder od # evs) = od # submissions evs"
  "submissions (Post url od # evs) = od # submissions evs"
  by (simp_all add: submissions_def List.map_filter_simps)

lemma same_time_in_force:
  "od_time_in_force od = ''day'' \<Longrightarrow> od\<lparr>od_time_in_force := ''day''\<rparr> = od"
  by (cases od) simp

text \<open>
  The handler on a request that passes validation: the two variables of the position
  check, the order body built from them, and the continuation on the SDK's answer.
\<close>

lemma place_valid:
  assumes "\<not> missing_fields req"
  shows "\<exists>sd smartSide ex od.
           od_time_in_force od = ''day'' \<and> od_order_class od = None
           \<and> od_side od = wire_side smartSide
           \<and> od_qty od = parseInt (quantity req)
           \<and> od_limit_price od =
               (if (case orderType req of None \<Rightarrow> ''limit'' | Some t \<Rightarrow> t) = ''limit''
                then Some (toFixed2 (parseFloat (price req))) else None)
           \<and> (ex, smartSide) = position_check env (str_of (symbol req)) sd
           \<and> sd = str_of (side req)
           \<and> placeOptionsOrder tm env req =
             (case sdk_reply env of
                Inr order \<Rightarrow>
                  (success order ''Options order placed successfully via SDK'' ''alpaca_sdk''
                     smartSide sd (Some (position_info_of ex)),
                   [GetAccount, GetPositions, CreateOrder od])
              | Inl sdkError \<Rightarrow>
                  (fst (direct_api tm env sd smartSide ex od),
                   [GetAccount, GetPositions, CreateOrder od]
                     @ snd (direct_api tm env sd smartSide ex od)))"
  using assms
  by (simp add: placeOptionsOrder_def Let_def build_orderData_def split: prod.splits sum.splits)

lemma direct_api_rejected:
  assumes "direct_reply env = Reply status body" "\<not> response_ok status"
  shows "direct_api tm env sd ss ex od =
           (fst (handle_rejected tm env sd ss ex od status (errorData_of body)),
            Post (orders_url tm) od
              # snd (handle_rejected tm env sd ss ex od status (errorData_of body)))"
  using assms by (simp add: direct_api_def Let_def split: prod.splits)

lemma direct_api_not_rejected:
  assumes "\<forall>status body. direct_reply env = Reply status body \<longrightarrow> response_ok status"
  shows "snd (direct_api tm env sd ss ex od) = [Post (orders_url tm) od]"
  using assms by (simp add: direct_api_def Let_def split: fetch_reply.splits payload.splits)

lemma handle_rejected_short_sell:
  assumes "msg_includes (errorData ''message'') short_sell_text"
  shows "handle_rejected tm env sd ss ex od status errorData =
           (rejection tm status (broker_restriction_text (errorData ''message''))
              errorData od sd ss ex, [])"
  using assms by (simp add: handle_rejected_def Let_def)

lemma handle_rejected_wash_events:
  assumes "\<not> msg_includes (errorData ''message'') short_sell_text"
    "msg_includes (errorData ''message'') wash_trade_text"
  shows "snd (handle_rejected tm env sd ss ex od status errorData) =
           [Delay 100, Post (orders_url tm) (od\<lparr>od_time_in_force := ''day''\<rparr>)]"
  using assms
  by (simp add: handle_rejected_def Let_def split: fetch_reply.splits payload.splits)

lemma handle_rejected_wash_success:
  assumes "\<not> msg_includes (errorData ''message'') short_sell_text"
    "msg_includes (errorData ''message'') wash_trade_text"
    "retry_reply env = Reply retryStatus (Json retryOrder)" "response_ok retryStatus"
  shows "fst (handle_rejected tm env sd ss ex od status errorData) =
           success retryOrder
             ''Options order placed successfully (retry after wash trade detection)''
             ''retry_after_wash_trade'' ss sd None"
  using assms by (simp add: handle_rejected_def Let_def)

lemma handle_rejected_fatal:
  assumes "\<not> msg_includes (errorData ''message'') short_sell_text"
    "\<not> msg_includes (errorData ''message'') wash_trade_text"
  shows "handle_rejected tm env sd ss ex od status errorData =
           (rejection tm status
              (or_default (errorData ''message'')
                 (or_default (errorData ''error'') ''Options order failed''))
              errorData od sd ss ex, [])"
  using assms by (simp add: handle_rejected_def Let_def)

lemma handle_rejected_submissions:
  "length (submissions (snd (handle_rejected tm env sd ss ex od status errorData))) \<le> 1"
  by (simp add: handle_rejected_def Let_def submissions_simps
      split: fetch_reply.splits payload.splits)

lemma direct_api_submissions:
  "length (submissions (snd (direct_api tm env sd ss ex od))) \<le> 2"
proof (cases "\<exists>status body. direct_reply env = Reply status body \<and> \<not> response_ok status")
  case True
  then obtain status body where r: "direct_reply env = Reply status body" "\<not> response_ok status"
    by blast
  show ?thesis
    using handle_rejected_submissions [of tm env sd ss ex od status "errorData_of body"]
    by (simp add: direct_api_rejected [OF r] submissions_simps)
next
  case False
  then have "\<forall>status body. direct_reply env = Reply status body \<longrightarrow> response_ok status"
    by blast
  then show ?thesis
    by (simp add: direct_api_not_rejected submissions_simps)
qed

lemma lower_sell: "toLowerCase ''sell'' = ''sell''"
  by (simp add: js_eval)

lemma lower_buy: "toLowerCase ''buy'' = ''buy''"
  by (simp add: js_eval)

lemma lower_qualified:
  "toLowerCase ''buy_to_open'' = ''buy_to_open''"
  "toLowerCase ''buy_to_close'' = ''buy_to_close''"
  "toLowerCase ''sell_to_open'' = ''sell_to_open''"
  "toLowerCase ''sell_to_close'' = ''sell_to_close''"
  by (simp_all add: js_eval)

lemma serve_mode:
  "tm = ''paper'' \<or> tm = ''live'' \<Longrightarrow> serve tm r = ''paper'' \<or> serve tm r = ''live''"
  by (cases r) (auto simp: set_trading_mode_def split: jsval.splits)

lemma foldl_serve_mode:
  "tm = ''paper'' \<or> tm = ''live''
   \<Longrightarrow> foldl serve tm reqs = ''paper'' \<or> foldl serve tm reqs = ''live''"
proof (induction reqs arbitrary: tm)
  case Nil
  then show ?case by simp
next
  case (Cons r reqs)
  have "serve tm r = ''paper'' \<or> serve tm r = ''live''"
    using Cons.prems by (rule serve_mode)
  then show ?case
    using Cons.IH [of "serve tm r"] by simp
qed

lemma includes_nonempty: "str_includes m sub \<Longrightarrow> sub \<noteq> [] \<Longrightarrow> m \<noteq> []"
  by (cases m) auto

lemma wash_nonempty: "wash_trade_text \<noteq> []"
  by (simp add: wash_trade_text_def)

lemma short_nonempty: "short_sell_text \<noteq> []"
  by (simp add: short_sell_text_def)

lemma direct_api_first:
  "\<exists>rest. snd (direct_api tm env sd ss ex od) = Post (orders_url tm) od # rest"
  by (simp add: direct_api_def Let_def split: fetch_reply.splits payload.splits prod.splits)

lemma handle_rejected_bodies:
  assumes "od' \<in> set (submissions (snd (handle_rejected tm env sd ss ex od status errorData)))"
  shows "od_side od' = od_side od \<and> od_qty od' = od_qty od
         \<and> od_limit_price od' = od_limit_price od \<and> od_order_class od' = od_order_class od"
  using assms
  by (auto simp: handle_rejected_def Let_def submissions_simps
      split: if_splits fetch_reply.splits payload.splits)

lemma direct_api_bodies:
  assumes "od' \<in> set (submissions (snd (direct_api tm env sd ss ex od)))"
  shows "od_side od' = od_side od \<and> od_qty od' = od_qty od
         \<and> od_limit_price od' = od_limit_price od \<and> od_order_class od' = od_order_class od"
proof (cases "\<exists>status body. direct_reply env = Reply status body \<and> \<not> response_ok status")
  case True
  then obtain status body where r: "direct_reply env = Reply status body" "\<not> response_ok status"
    by blast
  from assms have "od' = od
      \<or> od' \<in> set (submissions (snd (handle_rejected tm env sd ss ex od status (errorData_of body))))"
    by (simp add: direct_api_rejected [OF r] submissions_simps)
  then show ?thesis
    using handle_rejected_bodies [of od' tm env sd ss ex od status "errorData_of body"]
    by blast
next
  case False
  then have "\<forall>status body. direct_reply env = Reply status body \<longrightarrow> response_ok status"
    by blast
  with assms show ?thesis
    by (simp add: direct_api_not_rejected submissions_simps)
qed

text \<open>
  Every body submitted in a run carries the side, quantity and price of the first, and
  no order class.
\<close>

lemma place_bodies:
  assumes "\<not> missing_fields req"
    and "od \<in> set (submissions (snd (placeOptionsOrder tm env req)))"
  shows "od_side od = wire_side (snd (position_check env (str_of (symbol req)) (str_of (side req))))
         \<and> od_qty od = parseInt (quantity req)
         \<and> od_limit_price od =
               (if (case orderType req of None \<Rightarrow> ''limit'' | Some t \<Rightarrow> t) = ''limit''
                then Some (toFixed2 (parseFloat (price req))) else None)
         \<and> od_order_class od = None"
proof -
  from place_valid [OF assms(1), of env tm]
  obtain sd smartSide ex od0 where
    od0: "od_side od0 = wire_side smartSide" "od_qty od0 = parseInt (quantity req)"
      "od_order_class od0 = None"
      "od_limit_price od0 =
               (if (case orderType req of None \<Rightarrow> ''limit'' | Some t \<Rightarrow> t) = ''limit''
                then Some (toFixed2 (parseFloat (price req))) else None)"
    and pc: "(ex, smartSide) = position_check env (str_of (symbol req)) sd"
      "sd = str_of (side req)"
    and p: "placeOptionsOrder tm env req =
             (case sdk_reply env of
                Inr order \<Rightarrow>
                  (success order ''Options order placed successfully via SDK'' ''alpaca_sdk''
                     smartSide sd (Some (position_info_of ex)),
                   [GetAccount, GetPositions, CreateOrder od0])
              | Inl sdkError \<Rightarrow>
                  (fst (direct_api tm env sd smartSide ex od0),
                   [GetAccount, GetPositions, CreateOrder od0]
                     @ snd (direct_api tm env sd smartSide ex od0)))"
    by blast
  from pc have ss: "smartSide = snd (position_check env (str_of (symbol req)) (str_of (side req)))"
    by (metis snd_conv)
  from assms(2) have "od = od0 \<or> od \<in> set (submissions (snd (direct_api tm env sd smartSide ex od0)))"
    by (auto simp: p submissions_simps split: sum.splits)
  then have "od_side od = od_side od0 \<and> od_qty od = od_qty od0
      \<and> od_limit_price od = od_limit_price od0 \<and> od_order_class od = od_order_class od0"
    using direct_api_bodies [of od tm env sd smartSide ex od0] by blast
  with od0 ss show ?thesis by simp
qed

lemma place_submits:
  assumes "\<not> missing_fields req"
  shows "submissions (snd (placeOptionsOrder tm env req)) \<noteq> []"
proof -
  from place_valid [OF assms, of env tm]
  obtain sd smartSide ex od0 where
    p: "placeOptionsOrder tm env req =
             (case sdk_reply env of
                Inr order \<Rightarrow>
                  (success order ''Options order placed successfully via SDK'' ''alpaca_sdk''
                     smartSide sd (Some (position_info_of ex)),
                   [GetAccount, GetPositions, CreateOrder od0])
              | Inl sdkError \<Rightarrow>
                  (fst (direct_api tm env sd smartSide ex od0),
                   [GetAccount, GetPositions, CreateOrder od0]
                     @ snd (direct_api tm env sd smartSide ex od0)))"
    by blast
  show ?thesis
    by (simp add: p submissions_simps split: sum.splits)
qed

text \<open>The handler when the SDK fails and the direct submission is rejected.\<close>

lemma place_direct_rejected:
  assumes "\<not> missing_fields req" "sdk_reply env = Inl sdkError"
    "direct_reply env = Reply status body" "\<not> response_ok status"
  shows "\<exists>smartSide ex od.
           od_time_in_force od = ''day'' \<and> od_order_class od = None
           \<and> placeOptionsOrder tm env req =
             (fst (handle_rejected tm env (str_of (side req)) smartSide ex od status
                     (errorData_of body)),
              [GetAccount, GetPositions, CreateOrder od, Post (orders_url tm) od]
                @ snd (handle_rejected tm env (str_of (side req)) smartSide ex od status
                         (errorData_of body)))"
proof -
  from place_valid [OF assms(1), of env tm]
  obtain sd smartSide ex od where
    od: "od_time_in_force od = ''day''" "od_order_class od = None"
    and sd: "sd = str_of (side req)"
    and p: "placeOptionsOrder tm env req =
             (case sdk_reply env of
                Inr order \<Rightarrow>
                  (success order ''Options order placed successfully via SDK'' ''alpaca_sdk''
                     smartSide sd (Some (position_info_of ex)),
                   [GetAccount, GetPositions, CreateOrder od])
              | Inl sdkError \<Rightarrow>
                  (fst (direct_api tm env sd smartSide ex od),
                   [GetAccount, GetPositions, CreateOrder od]
                     @ snd (direct_api tm env sd smartSide ex od)))"
    by blast
  have "placeOptionsOrder tm env req =
             (fst (handle_rejected tm env sd smartSide ex od status (errorData_of body)),
              [GetAccount, GetPositions, CreateOrder od, Post (orders_url tm) od]
                @ snd (handle_rejected tm env sd smartSide ex od status (errorData_of body)))"
    by (simp add: p assms(2) direct_api_rejected [OF assms(3,4)])
  with od sd show ?thesis by blast
qed

subsection \<open>Rounding to a double\<close>

lemma bitlen_nonneg: "0 \<le> bitlen n"
proof (induction n rule: bitlen.induct)
  case (1 n)
  show ?case
  proof (cases "n \<le> 0")
    case True
    then show ?thesis by (simp add: bitlen.simps [of n])
  next
    case False
    from "1.IH" [OF False] False show ?thesis by (simp add: bitlen.simps [of n])
  qed
qed

lemma bitlen_pos: "0 < n \<Longrightarrow> 1 \<le> bitlen n"
  using bitlen_nonneg [of "n div 2"] by (simp add: bitlen.simps [of n])

lemma bitlen_bounds: "0 < n \<Longrightarrow> 2 ^ nat (bitlen n - 1) \<le> n \<and> n < 2 ^ nat (bitlen n)"
proof (induction n rule: bitlen.induct)
  case (1 n)
  show ?case
  proof (cases "n = 1")
    case True
    have "bitlen 1 = 1"
      by (simp add: bitlen.simps)
    with True show ?thesis by simp
  next
    case False
    with "1.prems" have pos: "0 < n div 2" by linarith
    have nle: "\<not> n \<le> 0" using "1.prems" by simp
    from "1.IH" [OF nle pos]
    have ih: "2 ^ nat (bitlen (n div 2) - 1) \<le> n div 2" "n div 2 < 2 ^ nat (bitlen (n div 2))"
      by simp_all
    have b: "bitlen n = 1 + bitlen (n div 2)"
      using nle by (simp add: bitlen.simps [of n])
    have bp: "1 \<le> bitlen (n div 2)"
      using pos by (rule bitlen_pos)
    have n1: "nat (bitlen n - 1) = Suc (nat (bitlen (n div 2) - 1))"
      using b bp by simp
    have n2: "nat (bitlen n) = Suc (nat (bitlen (n div 2)))"
      using b bp by simp
    have lo: "(2::int) ^ nat (bitlen n - 1) \<le> n"
    proof -
      have "(2::int) ^ nat (bitlen n - 1) = 2 * 2 ^ nat (bitlen (n div 2) - 1)"
        by (simp add: n1)
      also have "\<dots> \<le> 2 * (n div 2)"
        using ih(1) by simp
      also have "\<dots> \<le> n"
        by simp
      finally show ?thesis .
    qed
    have hi: "n < 2 ^ nat (bitlen n)"
    proof -
      have "n div 2 + 1 \<le> 2 ^ nat (bitlen (n div 2))"
        using ih(2) by simp
      then have "2 * (n div 2) + 2 \<le> 2 * 2 ^ nat (bitlen (n div 2))"
        by simp
      moreover have "n < 2 * (n div 2) + 2"
        by presburger
      ultimately show ?thesis
        by (simp add: n2)
    qed
    from lo hi show ?thesis by simp
  qed
qed

lemma ndigits_pos: "1 \<le> ndigits n"
proof (induction n rule: ndigits.induct)
  case (1 n)
  show ?case
  proof (cases "n < 10")
    case True
    then show ?thesis by (simp add: ndigits.simps [of n])
  next
    case False
    from "1.IH" [OF False] False show ?thesis by (simp add: ndigits.simps [of n])
  qed
qed

lemma ndigits_bound: "0 < n \<Longrightarrow> 10 ^ nat (ndigits n - 1) \<le> n"
proof (induction n rule: ndigits.induct)
  case (1 n)
  show ?case
  proof (cases "n < 10")
    case True
    with "1.prems" show ?thesis by (simp add: ndigits.simps [of n])
  next
    case False
    then have pos: "0 < n div 10" by linarith
    from "1.IH" [OF False pos] have ih: "10 ^ nat (ndigits (n div 10) - 1) \<le> n div 10" .
    have nd: "1 \<le> ndigits (n div 10)"
      by (rule ndigits_pos)
    have "nat (ndigits n - 1) = Suc (nat (ndigits (n div 10) - 1))"
      using False nd by (simp add: ndigits.simps [of n])
    then have "(10::int) ^ nat (ndigits n - 1) = 10 * 10 ^ nat (ndigits (n div 10) - 1)"
      by simp
    also have "\<dots> \<le> 10 * (n div 10)"
      using ih by simp
    also have "\<dots> \<le> n"
      by simp
    finally show ?thesis .
  qed
qed

lemma round_half_even_bounds: "\<lfloor>r\<rfloor> \<le> round_half_even r \<and> round_half_even r \<le> \<lfloor>r\<rfloor> + 1"
  by (simp add: round_half_even_def Let_def)

lemma quantum_pos: "0 < quantum e"
  by (simp add: quantum_def)

lemma quantum_scale: "0 \<le> e \<Longrightarrow> quantum e * 2 ^ 52 = 2 ^ nat e"
proof (cases "52 \<le> e")
  case True
  assume "0 \<le> e"
  have "nat e = nat (e - 52) + 52" using True by simp
  then have "(2::real) ^ nat e = 2 ^ nat (e - 52) * 2 ^ 52"
    by (simp only: power_add)
  with True show ?thesis by (simp add: quantum_def)
next
  case False
  assume e: "0 \<le> e"
  have "52 = nat (52 - e) + nat e" using False e by simp
  then have h: "(2::real) ^ 52 = 2 ^ nat (52 - e) * 2 ^ nat e"
    by (simp only: power_add)
  show ?thesis using False by (simp add: quantum_def h del: power_numeral)
qed

text \<open>
  The rounding of a real \<open>x\<close> of at least 1, before the test for overflow: its binary
  exponent \<open>e\<close> is not negative, and both \<open>x\<close> and the rounded value lie between \<open>2\<^sup>e\<close>
  and \<open>2\<^sup>e\<^sup>+\<^sup>1\<close>.
\<close>

lemma rounded_bounds:
  assumes "1 \<le> x"
  shows "0 \<le> bin_exponent x
         \<and> 2 ^ nat (bin_exponent x) \<le> x
         \<and> x < 2 * 2 ^ nat (bin_exponent x)
         \<and> 2 ^ nat (bin_exponent x)
             \<le> real_of_int (round_half_even (x / quantum (bin_exponent x)))
                 * quantum (bin_exponent x)
         \<and> real_of_int (round_half_even (x / quantum (bin_exponent x)))
               * quantum (bin_exponent x)
             \<le> 2 * 2 ^ nat (bin_exponent x)"
proof -
  define n where "n = \<lfloor>x\<rfloor>"
  define e where "e = bitlen n - 1"
  define q where "q = quantum e"
  define m where "m = round_half_even (x / q)"
  have n: "0 < n" using assms(1) by (simp add: n_def)
  have e0: "0 \<le> e" using bitlen_pos [OF n] by (simp add: e_def)
  from bitlen_bounds [OF n]
  have lo: "2 ^ nat e \<le> n" and hi: "n < 2 ^ nat (bitlen n)"
    by (simp_all add: e_def)
  have be: "nat (bitlen n) = Suc (nat e)"
    using e0 by (simp add: e_def)
  have xlo: "2 ^ nat e \<le> x"
  proof -
    have "real_of_int (2 ^ nat e) \<le> real_of_int n" using lo by linarith
    also have "\<dots> \<le> x" by (simp add: n_def)
    finally show ?thesis by simp
  qed
  have xhi: "x < 2 * 2 ^ nat e"
  proof -
    have "n + 1 \<le> 2 ^ nat (bitlen n)" using hi by simp
    then have "real_of_int (n + 1) \<le> real_of_int (2 ^ nat (bitlen n))" by linarith
    moreover have "x < real_of_int (n + 1)" by (simp add: n_def)
    ultimately show ?thesis by (simp add: be)
  qed
  have bx: "bin_exponent x = e"
    using assms(1) by (simp add: bin_exponent_def e_def n_def)
  have qpos: "0 < q" by (simp add: q_def quantum_pos)
  have qs: "q * 2 ^ 52 = 2 ^ nat e" unfolding q_def using e0 by (rule quantum_scale)
  have rlo: "2 ^ 52 \<le> x / q"
  proof -
    have "q * 2 ^ 52 \<le> x" using xlo qs by simp
    then show ?thesis using qpos by (simp add: pos_le_divide_eq mult.commute)
  qed
  have rhi: "x / q < 2 ^ 53"
  proof -
    have "x < q * 2 ^ 53" using xhi qs by simp
    then show ?thesis using qpos by (simp add: pos_divide_less_eq mult.commute)
  qed
  have flo: "2 ^ 52 \<le> \<lfloor>x / q\<rfloor>"
    using rlo by (simp add: le_floor_iff)
  have fhi: "\<lfloor>x / q\<rfloor> < 2 ^ 53"
    using rhi by (simp add: floor_less_iff)
  have mlo: "2 ^ 52 \<le> m"
    using round_half_even_bounds [of "x / q"] flo unfolding m_def by linarith
  have mhi: "m \<le> 2 ^ 53"
    using round_half_even_bounds [of "x / q"] fhi unfolding m_def by linarith
  have vlo: "2 ^ nat e \<le> real_of_int m * q"
  proof -
    have "(2::real) ^ nat e = 2 ^ 52 * q" using qs by (simp add: mult.commute)
    also have "\<dots> \<le> real_of_int m * q"
      using mlo qpos by (simp add: mult_right_mono)
    finally show ?thesis .
  qed
  have vhi: "real_of_int m * q \<le> 2 * 2 ^ nat e"
  proof -
    have "real_of_int m * q \<le> 2 ^ 53 * q"
      using mhi qpos by (simp add: mult_right_mono)
    also have "\<dots> = 2 * 2 ^ nat e" using qs by (simp add: mult.commute)
    finally show ?thesis .
  qed
  from e0 xlo xhi vlo vhi show ?thesis
    by (simp add: bx m_def q_def)
qed

text \<open>A number from 1 to below \<open>2\<^sup>1\<^sup>0\<^sup>2\<^sup>3\<close> rounds to a finite double of at least 1.\<close>

lemma to_double_ge_1:
  assumes "1 \<le> x" and "x < 2 ^ 1023"
  shows "\<exists>v. to_double x = Fin v \<and> 1 \<le> v"
proof -
  define e where "e = bin_exponent x"
  define v where "v = real_of_int (round_half_even (x / quantum e)) * quantum e"
  from rounded_bounds [OF assms(1)]
  have e0: "0 \<le> e" and xlo: "2 ^ nat e \<le> x" and vlo: "2 ^ nat e \<le> v"
    and vhi: "v \<le> 2 * 2 ^ nat e"
    by (simp_all add: e_def v_def)
  have "(2::real) ^ nat e < 2 ^ 1023" using xlo assms(2) by linarith
  then have "nat e < 1023" by (simp del: power_numeral)
  then have e1: "Suc (nat e) \<le> 1023" by simp
  have "v \<le> 2 ^ Suc (nat e)" using vhi by simp
  also have "\<dots> \<le> 2 ^ 1023"
    using e1 by (intro power_increasing) simp_all
  also have "\<dots> < (2::real) ^ 1024" by simp
  finally have fin: "\<not> 2 ^ 1024 \<le> v" by simp
  have "(1::real) \<le> 2 ^ nat e" by simp
  with vlo have v1: "1 \<le> v" by linarith
  have "max e (- 1022) = e" using e0 by simp
  then have "to_double x = Fin v"
    using assms(1) fin
    by (simp add: to_double_def to_double_pos_def Let_def e_def [symmetric] v_def [symmetric]
        del: power_numeral)
  with v1 show ?thesis by blast
qed

text \<open>A number of \<open>2\<^sup>1\<^sup>0\<^sup>2\<^sup>4\<close> or more overflows to infinity.\<close>

lemma to_double_overflow:
  assumes "2 ^ 1024 \<le> x"
  shows "to_double x = PosInf"
proof -
  have x1: "1 \<le> x"
  proof -
    have "(1::real) \<le> 2 ^ 1024" by simp
    with assms show ?thesis by linarith
  qed
  define e where "e = bin_exponent x"
  define v where "v = real_of_int (round_half_even (x / quantum e)) * quantum e"
  from rounded_bounds [OF x1]
  have e0: "0 \<le> e" and xhi: "x < 2 ^ Suc (nat e)" and vlo: "2 ^ nat e \<le> v"
    by (simp_all add: e_def v_def)
  have h: "(2::real) ^ 1024 < 2 ^ Suc (nat e)" using assms xhi by linarith
  have "1024 < Suc (nat e)"
  proof (rule power_less_imp_less_exp)
    show "(1::real) < 2" by simp
    show "(2::real) ^ 1024 < 2 ^ Suc (nat e)" by (rule h)
  qed
  then have "1024 \<le> nat e" by simp
  then have "(2::real) ^ 1024 \<le> 2 ^ nat e"
    by (intro power_increasing) simp_all
  with vlo have inf: "2 ^ 1024 \<le> v" by linarith
  have "max e (- 1022) = e" using e0 by simp
  then show ?thesis
    using x1 inf
    by (simp add: to_double_def to_double_pos_def Let_def e_def [symmetric] v_def [symmetric]
        del: power_numeral)
qed

lemma shortest_head_digit:
  assumes "1 \<le> v"
  shows "1 \<le> fst (shortest_head v)"
proof -
  define n where "n = dec_exponent v"
  define l where "l = \<lfloor>v / pow10 n\<rfloor>"
  have f: "0 < \<lfloor>v\<rfloor>" using assms by simp
  have n0: "0 \<le> n"
    using assms ndigits_pos [of "\<lfloor>v\<rfloor>"] by (simp add: n_def dec_exponent_def)
  have "real_of_int (10 ^ nat (ndigits \<lfloor>v\<rfloor> - 1)) \<le> real_of_int \<lfloor>v\<rfloor>"
    using ndigits_bound [OF f] by linarith
  also have "\<dots> \<le> v" by simp
  finally have "pow10 n \<le> v"
    using assms n0 by (simp add: pow10_def n_def dec_exponent_def)
  moreover have "0 < pow10 n" using n0 by (simp add: pow10_def)
  ultimately have "1 \<le> v / pow10 n" by (simp add: pos_le_divide_eq)
  then have l1: "1 \<le> l" by (simp add: l_def le_floor_iff)
  then show ?thesis
    by (simp add: shortest_head_def Let_def n_def [symmetric] l_def [symmetric])
qed

lemma parseInt_number_ge_1:
  assumes "1 \<le> v"
  shows "\<exists>w. parseInt_number (Fin v) = Fin w \<and> 1 \<le> w"
proof -
  obtain d n where h: "shortest_head \<bar>v\<bar> = (d, n)" by (cases "shortest_head \<bar>v\<bar>")
  have av: "\<bar>v\<bar> = v" using assms by simp
  have d1: "1 \<le> d" using shortest_head_digit [OF assms] h by (simp add: av)
  have t1: "1 \<le> trunc v" using assms by (simp add: trunc_def)
  show ?thesis
  proof (cases "- 6 \<le> n \<and> n \<le> 20")
    case True
    with assms h t1 show ?thesis by simp
  next
    case False
    with assms h d1 show ?thesis by auto
  qed
qed

lemma parseInt_Num_ge_1:
  assumes "1 \<le> x" and "x < 2 ^ 1023"
  shows "\<exists>w. parseInt (Num x) = Fin w \<and> 1 \<le> w"
proof -
  from to_double_ge_1 [OF assms] obtain v where "to_double x = Fin v" "1 \<le> v" by blast
  then show ?thesis using parseInt_number_ge_1 [of v] by simp
qed

lemma is_digit_chars: "is_digit c \<Longrightarrow> c \<in> set ''0123456789''"
  by (auto simp: is_digit_def digit_val_def split: if_splits)

lemma is_digit_not_ws: "is_digit c \<Longrightarrow> \<not> is_ws c"
  by (drule is_digit_chars) (auto simp: is_ws_def)

text \<open>On a non-empty string of decimal digits \<^verbatim>\<open>parseInt\<close> reads the whole string.\<close>

lemma parseInt_str_digits:
  assumes "s \<noteq> []" and "\<forall>c \<in> set s. is_digit c"
  shows "parseInt_str s = to_double (of_int (digits_val 10 digit_val s))"
proof -
  obtain c cs where s: "s = c # cs" using assms(1) by (cases s) auto
  have c: "is_digit c" using assms(2) s by simp
  have ws: "dropWhile is_ws s = s"
    using is_digit_not_ws [OF c] by (simp add: s)
  have sg: "take_sign s = (1, s)"
    using is_digit_chars [OF c] by (auto simp: s)
  have nx: "\<not> startsWith s ''0x''" "\<not> startsWith s ''0X''"
  proof -
    show "\<not> startsWith s ''0x''"
    proof (cases cs)
      case Nil
      then show ?thesis by (simp add: s)
    next
      case (Cons d ds)
      then have "is_digit d" using assms(2) s by simp
      from is_digit_chars [OF this] show ?thesis by (auto simp: s Cons)
    qed
    show "\<not> startsWith s ''0X''"
    proof (cases cs)
      case Nil
      then show ?thesis by (simp add: s)
    next
      case (Cons d ds)
      then have "is_digit d" using assms(2) s by simp
      from is_digit_chars [OF this] show ?thesis by (auto simp: s Cons)
    qed
  qed
  have tw: "takeWhile is_digit s = s"
    using assms(2) by (simp add: takeWhile_eq_all_conv)
  show ?thesis
    using assms(1) nx by (simp add: parseInt_str_def ws sg tw)
qed

lemma toFixed2_pos:
  assumes "1 / 200 \<le> p" and "p < 10 ^ 21"
  shows "\<exists>c. toFixed2 (Fin p) = Hundredths c \<and> 0 < c"
proof -
  have "1 \<le> p * 100 + 1 / 2" using assms(1) by simp
  then have "0 < \<lfloor>p * 100 + 1 / 2\<rfloor>" by linarith
  moreover have "\<not> 10 ^ 21 \<le> \<bar>p\<bar>" using assms by simp
  moreover have "\<not> p < 0" using assms(1) by simp
  ultimately show ?thesis by simp
qed

lemma huge_overflows: "to_double (10 ^ 999) = PosInf"
proof (rule to_double_overflow)
  show "(2::real) ^ 1024 \<le> 10 ^ 999"
    by simp
qed

section \<open>The claims\<close>

subsection \<open>Submission count\<close>

text \<open>
  The run on \<open>wash_broker\<close> submits the order three times: through the SDK, through the
  direct call, and once more after the wash-trade rejection of the direct call. So the
  bound of two submissions per placement call does not hold.
\<close>

theorem submissions_exceed_two:
  "\<not> length (submissions (snd (placeOptionsOrder ''paper'' wash_broker buy_request))) \<le> 2"
  by (simp add: sample_defs place_eval js_eval submissions_simps)

text \<open>
  C1, amended: for every options order placement call the order is submitted to the
  broker at most three times (the SDK call, the direct call after an SDK failure, and
  one retry of a rejected direct call), whatever the broker answers.
\<close>

theorem at_most_three_submissions:
  "length (submissions (snd (placeOptionsOrder tm env req))) \<le> 3"
proof (cases "missing_fields req")
  case True
  then show ?thesis by (simp add: placeOptionsOrder_def submissions_simps)
next
  case False
  from place_valid [OF False, of env tm]
  obtain sd smartSide ex od where
    p: "placeOptionsOrder tm env req =
             (case sdk_reply env of
                Inr order \<Rightarrow>
                  (success order ''Options order placed successfully via SDK'' ''alpaca_sdk''
                     smartSide sd (Some (position_info_of ex)),
                   [GetAccount, GetPositions, CreateOrder od])
              | Inl sdkError \<Rightarrow>
                  (fst (direct_api tm env sd smartSide ex od),
                   [GetAccount, GetPositions, CreateOrder od]
                     @ snd (direct_api tm env sd smartSide ex od)))"
    by blast
  show ?thesis
    using direct_api_submissions [of tm env sd smartSide ex od]
    by (simp add: p submissions_simps split: sum.splits)
qed

theorem at_most_three_submissions_witness:
  "length (submissions (snd (placeOptionsOrder ''paper'' wash_broker buy_request))) = 3"
  using at_most_three_submissions [of "''paper''" wash_broker buy_request]
  by (simp add: sample_defs place_eval js_eval submissions_simps)

subsection \<open>Side resolution\<close>

text \<open>
  C5: the side resolver follows the decision table. A side that is already one of the
  four qualified forms passes through unchanged; sell against a position of positive
  quantity gives sell_to_close; sell against no position or a quantity that is not
  positive gives sell_to_open; buy against a negative quantity gives buy_to_close; buy
  otherwise gives buy_to_open. The quantity is the number that \<^verbatim>\<open>parseFloat\<close> reads in
  the position's \<^verbatim>\<open>qty\<close>.
\<close>

theorem side_resolver_decision_table:
  "(sd \<in> {''buy_to_open'', ''buy_to_close'', ''sell_to_open'', ''sell_to_close''}
      \<longrightarrow> resolveSmartSide sd ex = sd)
   \<and> (ex = Some pos \<and> parseFloat (pos_qty pos) = Fin q \<and> q > 0
      \<longrightarrow> resolveSmartSide ''sell'' ex = ''sell_to_close'')
   \<and> (ex = None \<or> (ex = Some pos \<and> parseFloat (pos_qty pos) = Fin q \<and> q \<le> 0)
      \<longrightarrow> resolveSmartSide ''sell'' ex = ''sell_to_open'')
   \<and> (ex = Some pos \<and> parseFloat (pos_qty pos) = Fin q \<and> q < 0
      \<longrightarrow> resolveSmartSide ''buy'' ex = ''buy_to_close'')
   \<and> (ex = None \<or> (ex = Some pos \<and> parseFloat (pos_qty pos) = Fin q \<and> q \<ge> 0)
      \<longrightarrow> resolveSmartSide ''buy'' ex = ''buy_to_open'')"
proof -
  have passes: "sd \<in> {''buy_to_open'', ''buy_to_close'', ''sell_to_open'', ''sell_to_close''}
      \<longrightarrow> resolveSmartSide sd ex = sd"
    by (auto simp: resolveSmartSide_def lower_qualified split: option.splits)
  have sell_long: "ex = Some pos \<and> parseFloat (pos_qty pos) = Fin q \<and> q > 0
      \<longrightarrow> resolveSmartSide ''sell'' ex = ''sell_to_close''"
    by (simp add: resolveSmartSide_def lower_sell)
  have sell_open: "ex = None \<or> (ex = Some pos \<and> parseFloat (pos_qty pos) = Fin q \<and> q \<le> 0)
      \<longrightarrow> resolveSmartSide ''sell'' ex = ''sell_to_open''"
    by (auto simp: resolveSmartSide_def lower_sell)
  have buy_short: "ex = Some pos \<and> parseFloat (pos_qty pos) = Fin q \<and> q < 0
      \<longrightarrow> resolveSmartSide ''buy'' ex = ''buy_to_close''"
    by (simp add: resolveSmartSide_def lower_buy)
  have buy_open: "ex = None \<or> (ex = Some pos \<and> parseFloat (pos_qty pos) = Fin q \<and> q \<ge> 0)
      \<longrightarrow> resolveSmartSide ''buy'' ex = ''buy_to_open''"
    by (auto simp: resolveSmartSide_def lower_buy)
  from passes sell_long sell_open buy_short buy_open show ?thesis by blast
qed

theorem side_resolver_decision_table_witness:
  "parseFloat (pos_qty long_position) = Fin 1
   \<and> parseFloat (pos_qty short_position) = Fin (- 2)
   \<and> resolveSmartSide ''sell_to_open'' (Some long_position) = ''sell_to_open''
   \<and> resolveSmartSide ''sell'' (Some long_position) = ''sell_to_close''
   \<and> resolveSmartSide ''buy'' (Some long_position) = ''buy_to_open''
   \<and> resolveSmartSide ''sell'' (Some short_position) = ''sell_to_open''
   \<and> resolveSmartSide ''buy'' (Some short_position) = ''buy_to_close''
   \<and> resolveSmartSide ''sell'' None = ''sell_to_open''
   \<and> resolveSmartSide ''buy'' None = ''buy_to_open''"
proof -
  have long: "parseFloat (pos_qty long_position) = Fin 1"
    by (simp add: long_position_def js_eval)
  have short: "parseFloat (pos_qty short_position) = Fin (- 2)"
    by (simp add: short_position_def js_eval)
  show ?thesis
    using long short
      side_resolver_decision_table [of "''sell_to_open''" "Some long_position" long_position 1]
      side_resolver_decision_table [of "''sell_to_open''" "Some short_position" short_position "- 2"]
      side_resolver_decision_table [of "''sell_to_open''" None long_position 1]
    by simp
qed

subsection \<open>Validation\<close>

text \<open>
  C8: a request in which symbol, side, quantity or price is missing is rejected with the
  validation error of status 400, and the run makes no remote call at all: no account or
  position query and no submission.
\<close>

theorem validation_rejects_before_remote_calls:
  "symbol req = None \<or> side req = None \<or> quantity req = Undefined \<or> price req = Undefined
   \<Longrightarrow> placeOptionsOrder tm env req = (BadRequest 400 missing_fields_text, [])"
  by (auto simp: placeOptionsOrder_def missing_fields_def)

theorem validation_rejects_before_remote_calls_witness:
  "price no_price_request = Undefined
   \<and> placeOptionsOrder ''paper'' accepting_broker no_price_request
       = (BadRequest 400 missing_fields_text, [])"
proof -
  have h: "price no_price_request = Undefined"
    by (simp add: no_price_request_def)
  then have "symbol no_price_request = None \<or> side no_price_request = None
      \<or> quantity no_price_request = Undefined \<or> price no_price_request = Undefined"
    by simp
  from validation_rejects_before_remote_calls [OF this] h show ?thesis
    by simp
qed

subsection \<open>Trading mode\<close>

text \<open>
  C10: the trading mode of the process is always paper or live. It starts as paper; after
  any sequence of requests it is one of the two; the mode-setting handler answers a
  requested value other than the two with status 400 and leaves the mode as it was, and
  stores a requested value that is one of the two.
\<close>

theorem trading_mode_paper_or_live:
  "initial_tradingMode = ''paper''
   \<and> (run reqs = ''paper'' \<or> run reqs = ''live'')
   \<and> (mode \<noteq> Str ''paper'' \<and> mode \<noteq> Str ''live''
        \<longrightarrow> set_trading_mode tm mode = (ModeError 400 mode_error_text, tm))
   \<and> (mode = Str ''paper'' \<or> mode = Str ''live''
        \<longrightarrow> (\<exists>m txt. mode = Str m \<and> set_trading_mode tm mode = (ModeOk m txt, m)))"
proof -
  have init: "initial_tradingMode = ''paper''"
    by (simp add: initial_tradingMode_def)
  have inv: "run reqs = ''paper'' \<or> run reqs = ''live''"
    unfolding run_def by (rule foldl_serve_mode) (simp add: init)
  have bad: "mode \<noteq> Str ''paper'' \<and> mode \<noteq> Str ''live''
        \<longrightarrow> set_trading_mode tm mode = (ModeError 400 mode_error_text, tm)"
    by (simp add: set_trading_mode_def)
  have good: "mode = Str ''paper'' \<or> mode = Str ''live''
        \<longrightarrow> (\<exists>m txt. mode = Str m \<and> set_trading_mode tm mode = (ModeOk m txt, m))"
    by (auto simp: set_trading_mode_def)
  from init inv bad good show ?thesis by blast
qed

theorem trading_mode_paper_or_live_witness:
  "run [SetTradingMode (Str ''live''), SetTradingMode (Str ''demo''), GetTradingMode] = ''live''
   \<and> set_trading_mode ''live'' (Str ''demo'') = (ModeError 400 mode_error_text, ''live'')
   \<and> set_trading_mode ''paper'' (Str ''live'')
       = (ModeOk ''live'' ''Switched to live trading'', ''live'')"
  using trading_mode_paper_or_live
    [of "[SetTradingMode (Str ''live''), SetTradingMode (Str ''demo''), GetTradingMode]"
        "Str ''demo''" "''live''"]
  by (simp add: run_def initial_tradingMode_def set_trading_mode_def)

subsection \<open>Wash-trade retry\<close>

text \<open>
  Two runs against the claim that a submission rejected with a wash-trade message is
  retried exactly once, after a delay, with the tag \<^verbatim>\<open>retry_after_wash_trade\<close> on
  success. On \<open>sdk_wash_broker\<close> the SDK submission is rejected with such a message: the
  order is resubmitted at once, with no delay, and the success is tagged
  \<^verbatim>\<open>direct_api\<close>. On \<open>both_messages_broker\<close> the message of the rejected direct
  submission contains the wash-trade text and the short-sell text: the first branch of
  the chain takes it and no retry is made.
\<close>

theorem wash_trade_rejection_not_retried_as_claimed:
  "sdk_reply sdk_wash_broker = Inl wash_message
   \<and> str_includes wash_message wash_trade_text
   \<and> placeOptionsOrder ''paper'' sdk_wash_broker buy_request =
       (success sample_order ''Options order placed successfully via direct API''
          ''direct_api'' ''buy_to_open'' ''buy'' (Some None),
        [GetAccount, GetPositions, CreateOrder buy_orderData,
         Post (orders_url ''paper'') buy_orderData])
   \<and> direct_reply both_messages_broker = Reply 403 (Json [''message'' \<mapsto> both_message])
   \<and> str_includes both_message wash_trade_text
   \<and> snd (placeOptionsOrder ''paper'' both_messages_broker buy_request) =
       [GetAccount, GetPositions, CreateOrder buy_orderData,
        Post (orders_url ''paper'') buy_orderData]"
  by (simp add: sample_defs place_eval js_eval)

text \<open>
  C2, amended: if the SDK attempt has failed and the direct submission is rejected with
  a message that contains "potential wash trade detected" and does not contain "cannot
  open a short sell while a long buy order is open", exactly one retry is performed,
  after a delay of 100 ms, with an order body identical to that of the earlier attempts;
  and if that retry is answered with a success status and a JSON body, the result is a
  success response tagged \<^verbatim>\<open>retry_after_wash_trade\<close>.
\<close>

theorem wash_trade_retry:
  assumes "\<not> missing_fields req"
    and "sdk_reply env = Inl sdkError"
    and "direct_reply env = Reply status body" and "\<not> response_ok status"
    and "errorData_of body ''message'' = Some m"
    and "str_includes m wash_trade_text" and "\<not> str_includes m short_sell_text"
  shows "(\<exists>od. snd (placeOptionsOrder tm env req) =
            [GetAccount, GetPositions, CreateOrder od, Post (orders_url tm) od,
             Delay 100, Post (orders_url tm) od])
         \<and> (retry_reply env = Reply retryStatus (Json retryOrder) \<and> response_ok retryStatus
             \<longrightarrow> (\<exists>b. fst (placeOptionsOrder tm env req) = Accepted b
                    \<and> sb_method b = ''retry_after_wash_trade''))"
proof -
  have ns: "\<not> msg_includes (errorData_of body ''message'') short_sell_text"
    using assms(5,7) by simp
  have w: "msg_includes (errorData_of body ''message'') wash_trade_text"
    using assms(5,6) includes_nonempty [OF assms(6) wash_nonempty] by simp
  from place_direct_rejected [OF assms(1-4), of tm]
  obtain smartSide ex od where
    od: "od_time_in_force od = ''day''"
    and p: "placeOptionsOrder tm env req =
             (fst (handle_rejected tm env (str_of (side req)) smartSide ex od status
                     (errorData_of body)),
              [GetAccount, GetPositions, CreateOrder od, Post (orders_url tm) od]
                @ snd (handle_rejected tm env (str_of (side req)) smartSide ex od status
                         (errorData_of body)))"
    by blast
  have events: "snd (placeOptionsOrder tm env req) =
            [GetAccount, GetPositions, CreateOrder od, Post (orders_url tm) od,
             Delay 100, Post (orders_url tm) od]"
    by (simp add: p handle_rejected_wash_events [where errorData = "errorData_of body", OF ns w] same_time_in_force [OF od])
  have tagged: "retry_reply env = Reply retryStatus (Json retryOrder) \<and> response_ok retryStatus
             \<longrightarrow> (\<exists>b. fst (placeOptionsOrder tm env req) = Accepted b
                    \<and> sb_method b = ''retry_after_wash_trade'')"
    by (auto simp: p handle_rejected_wash_success [where errorData = "errorData_of body", OF ns w] success_def)
  from events tagged show ?thesis by blast
qed

theorem wash_trade_retry_witness:
  "placeOptionsOrder ''paper'' wash_broker buy_request =
     (success sample_order
        ''Options order placed successfully (retry after wash trade detection)''
        ''retry_after_wash_trade'' ''buy_to_open'' ''buy'' None,
      [GetAccount, GetPositions, CreateOrder buy_orderData,
       Post (orders_url ''paper'') buy_orderData, Delay 100,
       Post (orders_url ''paper'') buy_orderData])"
proof -
  have a1: "\<not> missing_fields buy_request"
    by (simp add: missing_fields_def buy_request_def)
  have a2: "sdk_reply wash_broker = Inl wash_message"
    by (simp add: wash_broker_def)
  have a3: "direct_reply wash_broker = Reply 403 (Json [''message'' \<mapsto> wash_message])"
    by (simp add: wash_broker_def)
  have a4: "\<not> response_ok 403"
    by (simp add: response_ok_def)
  have a5: "errorData_of (Json [''message'' \<mapsto> wash_message]) ''message'' = Some wash_message"
    by (simp add: errorData_of_def)
  have a6: "str_includes wash_message wash_trade_text"
    by (simp add: wash_trade_text_def wash_message_def)
  have a7: "\<not> str_includes wash_message short_sell_text"
    by (simp add: short_sell_text_def wash_message_def)
  have a8: "retry_reply wash_broker = Reply 200 (Json sample_order) \<and> response_ok 200"
    by (simp add: wash_broker_def response_ok_def)
  from wash_trade_retry [OF a1 a2 a3 a4 a5 a6 a7, of "''paper''" 200 sample_order] a8
  have "\<exists>b. fst (placeOptionsOrder ''paper'' wash_broker buy_request) = Accepted b
      \<and> sb_method b = ''retry_after_wash_trade''"
    by blast
  then show ?thesis
    by (simp add: sample_defs place_eval js_eval)
qed

subsection \<open>Short-sell conflict\<close>

text \<open>
  C3: a submission rejected with a message containing "cannot open a short sell while a
  long buy order is open" should be resubmitted once, after a delay, with the order
  class \<^verbatim>\<open>simple\<close> added to the body. The handler does not do it: the first branch of
  its \<^verbatim>\<open>if\<close>/\<^verbatim>\<open>else if\<close> chain tests the same condition as the branch that resubmits,
  so that branch is never reached. No run submits a body with an order class; and
  whenever the direct submission is rejected with such a message, the run ends with the
  rejection response after the SDK and the direct submission, and nothing is
  resubmitted.
\<close>

theorem short_sell_rejection_never_resubmitted:
  "(\<forall>od \<in> set (submissions (snd (placeOptionsOrder tm env req))). od_order_class od = None)
   \<and> (\<not> missing_fields req \<and> sdk_reply env = Inl sdkError
       \<and> direct_reply env = Reply status body \<and> \<not> response_ok status
       \<and> errorData_of body ''message'' = Some m \<and> str_includes m short_sell_text
      \<longrightarrow> (\<exists>smartSide ex od.
             placeOptionsOrder tm env req =
               (rejection tm status (broker_restriction_text (Some m)) (errorData_of body) od
                  (str_of (side req)) smartSide ex,
                [GetAccount, GetPositions, CreateOrder od, Post (orders_url tm) od])))"
proof -
  have no_class:
    "\<forall>od \<in> set (submissions (snd (placeOptionsOrder tm env req))). od_order_class od = None"
  proof (cases "missing_fields req")
    case True
    then show ?thesis by (simp add: placeOptionsOrder_def submissions_simps)
  next
    case False
    then show ?thesis using place_bodies [OF False, of _ tm env] by blast
  qed
  have rejected: "\<not> missing_fields req \<and> sdk_reply env = Inl sdkError
       \<and> direct_reply env = Reply status body \<and> \<not> response_ok status
       \<and> errorData_of body ''message'' = Some m \<and> str_includes m short_sell_text
      \<longrightarrow> (\<exists>smartSide ex od.
             placeOptionsOrder tm env req =
               (rejection tm status (broker_restriction_text (Some m)) (errorData_of body) od
                  (str_of (side req)) smartSide ex,
                [GetAccount, GetPositions, CreateOrder od, Post (orders_url tm) od]))"
  proof
    assume h: "\<not> missing_fields req \<and> sdk_reply env = Inl sdkError
       \<and> direct_reply env = Reply status body \<and> \<not> response_ok status
       \<and> errorData_of body ''message'' = Some m \<and> str_includes m short_sell_text"
    then have v: "\<not> missing_fields req" and k: "sdk_reply env = Inl sdkError"
      and r: "direct_reply env = Reply status body" "\<not> response_ok status"
      and m: "errorData_of body ''message'' = Some m" and i: "str_includes m short_sell_text"
      by simp_all
    have s: "msg_includes (errorData_of body ''message'') short_sell_text"
      using m i includes_nonempty [OF i short_nonempty] by simp
    from place_direct_rejected [OF v k r, of tm]
    obtain smartSide ex od where
      p: "placeOptionsOrder tm env req =
             (fst (handle_rejected tm env (str_of (side req)) smartSide ex od status
                     (errorData_of body)),
              [GetAccount, GetPositions, CreateOrder od, Post (orders_url tm) od]
                @ snd (handle_rejected tm env (str_of (side req)) smartSide ex od status
                         (errorData_of body)))"
      by blast
    have "placeOptionsOrder tm env req =
               (rejection tm status (broker_restriction_text (Some m)) (errorData_of body) od
                  (str_of (side req)) smartSide ex,
                [GetAccount, GetPositions, CreateOrder od, Post (orders_url tm) od])"
      by (simp add: p handle_rejected_short_sell [where errorData = "errorData_of body", OF s] m)
    then show "\<exists>smartSide ex od.
             placeOptionsOrder tm env req =
               (rejection tm status (broker_restriction_text (Some m)) (errorData_of body) od
                  (str_of (side req)) smartSide ex,
                [GetAccount, GetPositions, CreateOrder od, Post (orders_url tm) od])"
      by blast
  qed
  from no_class rejected show ?thesis by blast
qed

theorem short_sell_rejection_never_resubmitted_witness:
  "alt_reply short_sell_broker = Reply 200 (Json sample_order)
   \<and> placeOptionsOrder ''paper'' short_sell_broker buy_request =
     (rejection ''paper'' 403 (broker_restriction_text (Some short_sell_message))
        [''message'' \<mapsto> short_sell_message] buy_orderData ''buy'' ''buy_to_open'' None,
      [GetAccount, GetPositions, CreateOrder buy_orderData,
       Post (orders_url ''paper'') buy_orderData])"
proof -
  have a: "\<not> missing_fields buy_request
      \<and> sdk_reply short_sell_broker = Inl short_sell_message
      \<and> direct_reply short_sell_broker = Reply 403 (Json [''message'' \<mapsto> short_sell_message])
      \<and> \<not> response_ok 403
      \<and> errorData_of (Json [''message'' \<mapsto> short_sell_message]) ''message''
          = Some short_sell_message
      \<and> str_includes short_sell_message short_sell_text"
    by (simp add: missing_fields_def buy_request_def short_sell_broker_def response_ok_def
        errorData_of_def short_sell_text_def short_sell_message_def)
  from short_sell_rejection_never_resubmitted
    [of "''paper''" short_sell_broker buy_request short_sell_message 403
        "Json [''message'' \<mapsto> short_sell_message]" short_sell_message] a
  have "\<exists>smartSide ex od. placeOptionsOrder ''paper'' short_sell_broker buy_request =
               (rejection ''paper'' 403 (broker_restriction_text (Some short_sell_message))
                  (errorData_of (Json [''message'' \<mapsto> short_sell_message])) od
                  (str_of (side buy_request)) smartSide ex,
                [GetAccount, GetPositions, CreateOrder od, Post (orders_url ''paper'') od])"
    by blast
  then show ?thesis
    by (simp add: sample_defs place_eval js_eval)
qed

subsection \<open>Fatal rejections\<close>

text \<open>
  On \<open>sdk_fatal_broker\<close> the first submission attempt, through the SDK, is rejected with
  a message that matches neither retryable pattern. A second submission is made all the
  same, through the direct call, and since it is accepted the error of the first attempt
  is not surfaced.
\<close>

theorem fatal_sdk_rejection_resubmitted:
  "sdk_reply sdk_fatal_broker = Inl fatal_message
   \<and> \<not> str_includes fatal_message wash_trade_text
   \<and> \<not> str_includes fatal_message short_sell_text
   \<and> placeOptionsOrder ''paper'' sdk_fatal_broker buy_request =
       (success sample_order ''Options order placed successfully via direct API''
          ''direct_api'' ''buy_to_open'' ''buy'' (Some None),
        [GetAccount, GetPositions, CreateOrder buy_orderData,
         Post (orders_url ''paper'') buy_orderData])"
  by (simp add: sample_defs place_eval js_eval)

text \<open>
  C4, amended: when the first submission attempt, through the SDK, is rejected, a second
  attempt is always made through the direct call, whatever the message. If that direct
  submission is rejected with a message matching neither retryable pattern, no further
  submission is made and its rejection is surfaced at once, with the broker's status,
  its message (or its error field, or a default text) and its payload.
\<close>

theorem fatal_direct_rejection_surfaced:
  assumes "\<not> missing_fields req"
    and "sdk_reply env = Inl sdkError"
  shows "(\<exists>od rest. snd (placeOptionsOrder tm env req) =
            GetAccount # GetPositions # CreateOrder od # Post (orders_url tm) od # rest)
         \<and> (direct_reply env = Reply status body \<and> \<not> response_ok status
             \<and> \<not> msg_includes (errorData_of body ''message'') wash_trade_text
             \<and> \<not> msg_includes (errorData_of body ''message'') short_sell_text
            \<longrightarrow> (\<exists>smartSide ex od. placeOptionsOrder tm env req =
                   (rejection tm status
                      (or_default (errorData_of body ''message'')
                         (or_default (errorData_of body ''error'') ''Options order failed''))
                      (errorData_of body) od (str_of (side req)) smartSide ex,
                    [GetAccount, GetPositions, CreateOrder od, Post (orders_url tm) od])))"
proof -
  from place_valid [OF assms(1), of env tm]
  obtain sd smartSide ex od where
    p: "placeOptionsOrder tm env req =
             (case sdk_reply env of
                Inr order \<Rightarrow>
                  (success order ''Options order placed successfully via SDK'' ''alpaca_sdk''
                     smartSide sd (Some (position_info_of ex)),
                   [GetAccount, GetPositions, CreateOrder od])
              | Inl sdkError \<Rightarrow>
                  (fst (direct_api tm env sd smartSide ex od),
                   [GetAccount, GetPositions, CreateOrder od]
                     @ snd (direct_api tm env sd smartSide ex od)))"
    by blast
  obtain rest where "snd (direct_api tm env sd smartSide ex od) = Post (orders_url tm) od # rest"
    using direct_api_first by blast
  then have second: "\<exists>od rest. snd (placeOptionsOrder tm env req) =
            GetAccount # GetPositions # CreateOrder od # Post (orders_url tm) od # rest"
    by (simp add: p assms(2))
  have fatal: "direct_reply env = Reply status body \<and> \<not> response_ok status
             \<and> \<not> msg_includes (errorData_of body ''message'') wash_trade_text
             \<and> \<not> msg_includes (errorData_of body ''message'') short_sell_text
            \<longrightarrow> (\<exists>smartSide ex od. placeOptionsOrder tm env req =
                   (rejection tm status
                      (or_default (errorData_of body ''message'')
                         (or_default (errorData_of body ''error'') ''Options order failed''))
                      (errorData_of body) od (str_of (side req)) smartSide ex,
                    [GetAccount, GetPositions, CreateOrder od, Post (orders_url tm) od]))"
  proof
    assume h: "direct_reply env = Reply status body \<and> \<not> response_ok status
             \<and> \<not> msg_includes (errorData_of body ''message'') wash_trade_text
             \<and> \<not> msg_includes (errorData_of body ''message'') short_sell_text"
    then have r: "direct_reply env = Reply status body" "\<not> response_ok status"
      and nw: "\<not> msg_includes (errorData_of body ''message'') wash_trade_text"
      and ns: "\<not> msg_includes (errorData_of body ''message'') short_sell_text"
      by simp_all
    from place_direct_rejected [OF assms(1,2) r, of tm]
    obtain smartSide' ex' od' where
      q: "placeOptionsOrder tm env req =
             (fst (handle_rejected tm env (str_of (side req)) smartSide' ex' od' status
                     (errorData_of body)),
              [GetAccount, GetPositions, CreateOrder od', Post (orders_url tm) od']
                @ snd (handle_rejected tm env (str_of (side req)) smartSide' ex' od' status
                         (errorData_of body)))"
      by blast
    have "placeOptionsOrder tm env req =
                   (rejection tm status
                      (or_default (errorData_of body ''message'')
                         (or_default (errorData_of body ''error'') ''Options order failed''))
                      (errorData_of body) od' (str_of (side req)) smartSide' ex',
                    [GetAccount, GetPositions, CreateOrder od', Post (orders_url tm) od'])"
      by (simp add: q handle_rejected_fatal [where errorData = "errorData_of body", OF ns nw])
    then show "\<exists>smartSide ex od. placeOptionsOrder tm env req =
                   (rejection tm status
                      (or_default (errorData_of body ''message'')
                         (or_default (errorData_of body ''error'') ''Options order failed''))
                      (errorData_of body) od (str_of (side req)) smartSide ex,
                    [GetAccount, GetPositions, CreateOrder od, Post (orders_url tm) od])"
      by blast
  qed
  from second fatal show ?thesis by blast
qed

theorem fatal_direct_rejection_surfaced_witness:
  "placeOptionsOrder ''paper'' fatal_broker buy_request =
     (rejection ''paper'' 403 fatal_message [''message'' \<mapsto> fatal_message] buy_orderData
        ''buy'' ''buy_to_open'' None,
      [GetAccount, GetPositions, CreateOrder buy_orderData,
       Post (orders_url ''paper'') buy_orderData])"
proof -
  have a1: "\<not> missing_fields buy_request"
    by (simp add: missing_fields_def buy_request_def)
  have a2: "sdk_reply fatal_broker = Inl fatal_message"
    by (simp add: fatal_broker_def wash_broker_def)
  have a3: "direct_reply fatal_broker = Reply 403 (Json [''message'' \<mapsto> fatal_message])
      \<and> \<not> response_ok 403
      \<and> \<not> msg_includes (errorData_of (Json [''message'' \<mapsto> fatal_message]) ''message'')
            wash_trade_text
      \<and> \<not> msg_includes (errorData_of (Json [''message'' \<mapsto> fatal_message]) ''message'')
            short_sell_text"
    by (simp add: fatal_broker_def wash_broker_def response_ok_def errorData_of_def
        fatal_message_def wash_trade_text_def short_sell_text_def)
  from fatal_direct_rejection_surfaced [OF a1 a2, of "''paper''" 403
      "Json [''message'' \<mapsto> fatal_message]"] a3
  have "\<exists>smartSide ex od. placeOptionsOrder ''paper'' fatal_broker buy_request =
                   (rejection ''paper'' 403
                      (or_default (errorData_of (Json [''message'' \<mapsto> fatal_message]) ''message'')
                         (or_default (errorData_of (Json [''message'' \<mapsto> fatal_message]) ''error'')
                            ''Options order failed''))
                      (errorData_of (Json [''message'' \<mapsto> fatal_message])) od
                      (str_of (side buy_request)) smartSide ex,
                    [GetAccount, GetPositions, CreateOrder od, Post (orders_url ''paper'') od])"
    by blast
  then show ?thesis
    by (simp add: sample_defs place_eval js_eval)
qed


subsection \<open>Failed position lookup\<close>

text \<open>
  C6: when the position lookup fails, the placement should proceed as if the caller were
  flat, so that a requested buy is sent with wire side buy. The handler proceeds, but
  its catch block leaves \<^verbatim>\<open>smartSide\<close> at the requested side, and the wire side is
  \<^verbatim>\<open>buy\<close> only for \<^verbatim>\<open>buy_to_open\<close> and \<^verbatim>\<open>buy_to_close\<close>: on a failed lookup every
  submission of a requested buy goes out with wire side sell, and a success response
  reports the smart side buy.
\<close>

theorem lookup_failure_sends_buy_as_sell:
  assumes "\<not> missing_fields req"
    and "side req = Some ''buy''"
    and "positions_reply env = None"
  shows "submissions (snd (placeOptionsOrder tm env req)) \<noteq> []
         \<and> (\<forall>od \<in> set (submissions (snd (placeOptionsOrder tm env req))). od_side od = ''sell'')
         \<and> (\<forall>b. fst (placeOptionsOrder tm env req) = Accepted b \<longrightarrow> sb_smart_side b = ''buy'')"
proof -
  have pc: "position_check env (str_of (symbol req)) (str_of (side req)) = (None, ''buy'')"
    using assms(2,3) by (simp add: position_check_def)
  have sides: "\<forall>od \<in> set (submissions (snd (placeOptionsOrder tm env req))). od_side od = ''sell''"
    using place_bodies [OF assms(1), of _ tm env] by (simp add: pc wire_side_def)
  have smart: "\<forall>b. fst (placeOptionsOrder tm env req) = Accepted b \<longrightarrow> sb_smart_side b = ''buy''"
    using assms
    by (auto simp: placeOptionsOrder_def direct_api_def handle_rejected_def position_check_def
        success_def rejection_def handle_error_def Let_def
        split: sum.splits fetch_reply.splits payload.splits if_splits)
  from place_submits [OF assms(1), of tm env] sides smart show ?thesis by blast
qed

theorem lookup_failure_sends_buy_as_sell_witness:
  "placeOptionsOrder ''paper'' lookup_fails_broker buy_request =
     (success sample_order ''Options order placed successfully via SDK'' ''alpaca_sdk''
        ''buy'' ''buy'' (Some None),
      [GetAccount, GetPositions, CreateOrder (buy_orderData\<lparr>od_side := ''sell''\<rparr>)])"
proof -
  have a1: "\<not> missing_fields buy_request"
    by (simp add: missing_fields_def buy_request_def)
  have a2: "side buy_request = Some ''buy''"
    by (simp add: buy_request_def)
  have a3: "positions_reply lookup_fails_broker = None"
    by (simp add: lookup_fails_broker_def)
  from lookup_failure_sends_buy_as_sell [OF a1 a2 a3, of "''paper''"]
  have "\<forall>od \<in> set (submissions (snd (placeOptionsOrder ''paper'' lookup_fails_broker buy_request))).
      od_side od = ''sell''"
    by blast
  then show ?thesis
    by (simp add: sample_defs place_eval js_eval)
qed

subsection \<open>Shape of the success response\<close>

text \<open>
  C7: every success response should carry \<^verbatim>\<open>position_info\<close>. The responses of the SDK
  path and of the direct path do; the success response after a wash-trade retry has no
  such field.
\<close>

theorem wash_retry_success_lacks_position_info:
  assumes "\<not> missing_fields req"
    and "sdk_reply env = Inl sdkError"
    and "direct_reply env = Reply status body" and "\<not> response_ok status"
    and "errorData_of body ''message'' = Some m"
    and "str_includes m wash_trade_text" and "\<not> str_includes m short_sell_text"
    and "retry_reply env = Reply retryStatus (Json retryOrder)" and "response_ok retryStatus"
  shows "\<exists>b. fst (placeOptionsOrder tm env req) = Accepted b
           \<and> sb_method b = ''retry_after_wash_trade'' \<and> sb_position_info b = None"
proof -
  have ns: "\<not> msg_includes (errorData_of body ''message'') short_sell_text"
    using assms(5,7) by simp
  have w: "msg_includes (errorData_of body ''message'') wash_trade_text"
    using assms(5,6) includes_nonempty [OF assms(6) wash_nonempty] by simp
  from place_direct_rejected [OF assms(1-4), of tm]
  obtain smartSide ex od where
    p: "placeOptionsOrder tm env req =
             (fst (handle_rejected tm env (str_of (side req)) smartSide ex od status
                     (errorData_of body)),
              [GetAccount, GetPositions, CreateOrder od, Post (orders_url tm) od]
                @ snd (handle_rejected tm env (str_of (side req)) smartSide ex od status
                         (errorData_of body)))"
    by blast
  show ?thesis
    by (simp add: p success_def
        handle_rejected_wash_success [where errorData = "errorData_of body", OF ns w assms(8,9)])
qed

theorem wash_retry_success_lacks_position_info_witness:
  "fst (placeOptionsOrder ''paper'' wash_broker buy_request) =
     Accepted \<lparr>sb_order = order_view_of sample_order,
       sb_message = ''Options order placed successfully (retry after wash trade detection)'',
       sb_method = ''retry_after_wash_trade'', sb_smart_side = ''buy_to_open'',
       sb_original_side = ''buy'', sb_position_info = None\<rparr>"
proof -
  have a1: "\<not> missing_fields buy_request"
    by (simp add: missing_fields_def buy_request_def)
  have a2: "sdk_reply wash_broker = Inl wash_message"
    by (simp add: wash_broker_def)
  have a3: "direct_reply wash_broker = Reply 403 (Json [''message'' \<mapsto> wash_message])"
    by (simp add: wash_broker_def)
  have a4: "\<not> response_ok 403"
    by (simp add: response_ok_def)
  have a5: "errorData_of (Json [''message'' \<mapsto> wash_message]) ''message'' = Some wash_message"
    by (simp add: errorData_of_def)
  have a6: "str_includes wash_message wash_trade_text"
    by (simp add: wash_trade_text_def wash_message_def)
  have a7: "\<not> str_includes wash_message short_sell_text"
    by (simp add: short_sell_text_def wash_message_def)
  have a8: "retry_reply wash_broker = Reply 200 (Json sample_order)"
    by (simp add: wash_broker_def)
  have a9: "response_ok 200"
    by (simp add: response_ok_def)
  from wash_retry_success_lacks_position_info [OF a1 a2 a3 a4 a5 a6 a7 a8 a9, of "''paper''"]
  obtain b where "fst (placeOptionsOrder ''paper'' wash_broker buy_request) = Accepted b"
    "sb_position_info b = None"
    by blast
  then show ?thesis
    by (simp add: sample_defs place_eval js_eval)
qed

subsection \<open>Quantity and price of the submitted order\<close>

text \<open>
  Three requests that pass validation and are submitted. \<open>negative_request\<close>, with
  quantity -5 and price -1, goes out with quantity -5 and limit price -1.00.
  \<open>small_request\<close>, with quantity "0.5" and price "0.001", goes out with quantity 0 and
  limit price 0.00. \<open>huge_request\<close>, whose quantity 1e999 is read from the JSON body as
  Infinity, goes out with the quantity NaN.
\<close>

theorem unchecked_quantity_and_price_submitted:
  "\<not> missing_fields negative_request
   \<and> submissions (snd (placeOptionsOrder ''paper'' accepting_broker negative_request)) =
       [buy_orderData\<lparr>od_qty := Fin (- 5), od_limit_price := Some (Hundredths (- 100))\<rparr>]
   \<and> \<not> missing_fields small_request
   \<and> submissions (snd (placeOptionsOrder ''paper'' accepting_broker small_request)) =
       [buy_orderData\<lparr>od_qty := Fin 0, od_limit_price := Some (Hundredths 0)\<rparr>]
   \<and> \<not> missing_fields huge_request
   \<and> map od_qty (submissions (snd (placeOptionsOrder ''paper'' accepting_broker huge_request)))
       = [NaN]"
proof -
  have negative: "\<not> missing_fields negative_request
   \<and> submissions (snd (placeOptionsOrder ''paper'' accepting_broker negative_request)) =
       [buy_orderData\<lparr>od_qty := Fin (- 5), od_limit_price := Some (Hundredths (- 100))\<rparr>]"
    by (simp add: sample_defs place_eval js_eval submissions_simps)
  have small: "\<not> missing_fields small_request
   \<and> submissions (snd (placeOptionsOrder ''paper'' accepting_broker small_request)) =
       [buy_orderData\<lparr>od_qty := Fin 0, od_limit_price := Some (Hundredths 0)\<rparr>]"
    by (simp add: sample_defs place_eval js_eval submissions_simps)
  have valid: "\<not> missing_fields huge_request"
    by (simp add: missing_fields_def huge_request_def buy_request_def huge_overflows
        del: power_numeral)
  have "map od_qty (submissions (snd (placeOptionsOrder ''paper'' accepting_broker huge_request)))
       = [parseInt (quantity huge_request)]"
    using valid
    by (simp add: placeOptionsOrder_def Let_def build_orderData_def accepting_broker_def
        submissions_simps split: prod.splits)
  also have "\<dots> = [NaN]"
    by (simp add: huge_request_def huge_overflows del: power_numeral)
  finally have huge: "map od_qty
      (submissions (snd (placeOptionsOrder ''paper'' accepting_broker huge_request))) = [NaN]" .
  from negative small valid huge show ?thesis by blast
qed

text \<open>
  C9, amended: every order submitted for a request that passes validation carries
  \<^verbatim>\<open>parseInt(quantity)\<close> as its quantity and, for a limit order,
  \<^verbatim>\<open>parseFloat(price).toFixed(2)\<close> as its limit price. The submitted quantity is a
  finite number of at least 1, so strictly greater than zero, when the requested
  quantity is a non-empty string of decimal digits or a JSON number, in both cases of a
  value from 1 to below \<open>2\<^sup>1\<^sup>0\<^sup>2\<^sup>3\<close>. The limit price, when present, is strictly
  greater than zero when \<^verbatim>\<open>parseFloat\<close> reads the requested price, string or number,
  as a finite number from 0.005 to below \<open>10\<^sup>2\<^sup>1\<close>.
\<close>

theorem submitted_quantity_and_price:
  assumes "\<not> missing_fields req"
    and "od \<in> set (submissions (snd (placeOptionsOrder tm env req)))"
  shows "od_qty od = parseInt (quantity req)
         \<and> od_limit_price od =
             (if orderType req = None \<or> orderType req = Some ''limit''
              then Some (toFixed2 (parseFloat (price req))) else None)
         \<and> ((quantity req = Str s \<and> s \<noteq> [] \<and> (\<forall>c \<in> set s. is_digit c)
               \<and> 1 \<le> digits_val 10 digit_val s \<and> digits_val 10 digit_val s < 2 ^ 1023)
             \<or> (quantity req = Num x \<and> 1 \<le> x \<and> x < 2 ^ 1023)
            \<longrightarrow> (\<exists>w. od_qty od = Fin w \<and> 1 \<le> w))
         \<and> (parseFloat (price req) = Fin p \<and> 1 / 200 \<le> p \<and> p < 10 ^ 21
            \<longrightarrow> od_limit_price od = None
                \<or> (\<exists>c. od_limit_price od = Some (Hundredths c) \<and> 0 < c))"
proof -
  from place_bodies [OF assms]
  have q: "od_qty od = parseInt (quantity req)"
    and l: "od_limit_price od =
               (if (case orderType req of None \<Rightarrow> ''limit'' | Some t \<Rightarrow> t) = ''limit''
                then Some (toFixed2 (parseFloat (price req))) else None)"
    by simp_all
  have l': "od_limit_price od =
             (if orderType req = None \<or> orderType req = Some ''limit''
              then Some (toFixed2 (parseFloat (price req))) else None)"
    using l by (cases "orderType req") simp_all
  have qstr: "quantity req = Str s \<and> s \<noteq> [] \<and> (\<forall>c \<in> set s. is_digit c)
               \<and> 1 \<le> digits_val 10 digit_val s \<and> digits_val 10 digit_val s < 2 ^ 1023
            \<longrightarrow> (\<exists>w. od_qty od = Fin w \<and> 1 \<le> w)"
  proof
    assume h: "quantity req = Str s \<and> s \<noteq> [] \<and> (\<forall>c \<in> set s. is_digit c)
               \<and> 1 \<le> digits_val 10 digit_val s \<and> digits_val 10 digit_val s < 2 ^ 1023"
    then have p: "parseInt (quantity req) = to_double (of_int (digits_val 10 digit_val s))"
      using parseInt_str_digits [of s] by simp
    have lo: "1 \<le> real_of_int (digits_val 10 digit_val s)"
      using h by linarith
    have "real_of_int (digits_val 10 digit_val s) < real_of_int (2 ^ 1023)"
      using h by linarith
    then have hi: "real_of_int (digits_val 10 digit_val s) < 2 ^ 1023"
      by simp
    from to_double_ge_1 [OF lo hi] show "\<exists>w. od_qty od = Fin w \<and> 1 \<le> w"
      by (simp add: q p)
  qed
  have qnum: "quantity req = Num x \<and> 1 \<le> x \<and> x < 2 ^ 1023
            \<longrightarrow> (\<exists>w. od_qty od = Fin w \<and> 1 \<le> w)"
    using q parseInt_Num_ge_1 [of x] by auto
  have ppos: "parseFloat (price req) = Fin p \<and> 1 / 200 \<le> p \<and> p < 10 ^ 21
            \<longrightarrow> od_limit_price od = None
                \<or> (\<exists>c. od_limit_price od = Some (Hundredths c) \<and> 0 < c)"
    using l' toFixed2_pos [of p] by auto
  from q l' qstr qnum ppos show ?thesis by blast
qed

theorem submitted_quantity_and_price_witness:
  "submissions (snd (placeOptionsOrder ''paper'' accepting_broker buy_request)) = [buy_orderData]
   \<and> submissions (snd (placeOptionsOrder ''paper'' accepting_broker number_request))
       = [buy_orderData\<lparr>od_qty := Fin 2\<rparr>]"
proof -
  have a1: "\<not> missing_fields buy_request"
    by (simp add: missing_fields_def buy_request_def)
  have e1: "submissions (snd (placeOptionsOrder ''paper'' accepting_broker buy_request))
     = [buy_orderData]"
    by (simp add: sample_defs place_eval js_eval submissions_simps)
  then have a2: "buy_orderData
      \<in> set (submissions (snd (placeOptionsOrder ''paper'' accepting_broker buy_request)))"
    by simp
  have a3: "quantity buy_request = Str ''1'' \<and> ''1'' \<noteq> [] \<and> (\<forall>c \<in> set ''1''. is_digit c)
      \<and> 1 \<le> digits_val 10 digit_val ''1'' \<and> digits_val 10 digit_val ''1'' < 2 ^ 1023"
    by (simp add: buy_request_def is_digit_def digit_val_def digits_val_def)
  have a4: "parseFloat (price buy_request) = Fin (6485183463413514 / 2 ^ 52)
      \<and> (1::real) / 200 \<le> 6485183463413514 / 2 ^ 52
      \<and> (6485183463413514::real) / 2 ^ 52 < 10 ^ 21"
    by (simp add: buy_request_def js_eval)
  have b1: "\<not> missing_fields number_request"
    by (simp add: missing_fields_def number_request_def buy_request_def js_eval)
  have e2: "submissions (snd (placeOptionsOrder ''paper'' accepting_broker number_request))
     = [buy_orderData\<lparr>od_qty := Fin 2\<rparr>]"
    by (simp add: sample_defs place_eval js_eval submissions_simps)
  then have b2: "buy_orderData\<lparr>od_qty := Fin 2\<rparr>
      \<in> set (submissions (snd (placeOptionsOrder ''paper'' accepting_broker number_request)))"
    by simp
  have b3: "quantity number_request = Num 2 \<and> (1::real) \<le> 2 \<and> (2::real) < 2 ^ 1023"
    by (simp add: number_request_def)
  from submitted_quantity_and_price [OF a1 a2, of "''1''" 0 "6485183463413514 / 2 ^ 52"] a3 a4
  have w1: "(\<exists>w. od_qty buy_orderData = Fin w \<and> 1 \<le> w)
      \<and> (od_limit_price buy_orderData = None
          \<or> (\<exists>c. od_limit_price buy_orderData = Some (Hundredths c) \<and> 0 < c))"
    by blast
  from submitted_quantity_and_price [OF b1 b2, of "[]" 2 0] b3
  have w2: "\<exists>w. od_qty (buy_orderData\<lparr>od_qty := Fin 2\<rparr>) = Fin w \<and> 1 \<le> w"
    by blast
  from e1 e2 w1 w2 show ?thesis by blast
qed

end
